theory Spec2Isabelle
  imports Main
begin

section \<open>Values, exceptions and configuration\<close>

text \<open>
  The configuration is the nested dictionary that \<^verbatim>\<open>load_config\<close> reads from YAML:
  section name, then key, then a scalar. The scalars that the two programs look at are
  strings and integers (\<^verbatim>\<open>num_cores\<close> is either a number or the string
  \<^verbatim>\<open>"messaging"\<close>).
\<close>

datatype pyval = PyStr string | PyInt int

datatype exn =
    KeyError pyval
  | AttributeError
  | TypeError
  | AssertionError string
  | OtherError string

type_synonym config = "string \<rightharpoonup> (string \<rightharpoonup> pyval)"

text \<open>\<^verbatim>\<open>config[a][b]\<close>: each subscript raises \<^verbatim>\<open>KeyError\<close> on a missing key.\<close>

definition getitem2 :: "config \<Rightarrow> string \<Rightarrow> string \<Rightarrow> exn + pyval" where
  "getitem2 config a b =
     (case config a of
        None \<Rightarrow> Inl (KeyError (PyStr a))
      | Some sec \<Rightarrow> (case sec b of None \<Rightarrow> Inl (KeyError (PyStr b)) | Some v \<Rightarrow> Inr v))"

text \<open>\<^verbatim>\<open>str.split()\<close> without arguments: split at runs of whitespace, no empty fields.\<close>

definition is_space :: "char \<Rightarrow> bool" where
  "is_space c = (c \<in> set [CHR '' '', CHR 0x09, CHR 0x0A, CHR 0x0B, CHR 0x0C, CHR 0x0D])"

fun split_ws :: "string \<Rightarrow> string \<Rightarrow> string list" where
  "split_ws cur [] = (if cur = [] then [] else [cur])"
| "split_ws cur (c # cs) =
     (if is_space c then (if cur = [] then split_ws [] cs else cur # split_ws [] cs)
      else split_ws (cur @ [c]) cs)"

text \<open>\<^verbatim>\<open>v.split()\<close> on a configuration value: only strings have the method.\<close>

definition py_split :: "pyval \<Rightarrow> exn + string list" where
  "py_split v = (case v of PyStr s \<Rightarrow> Inr (split_ws [] s) | PyInt _ \<Rightarrow> Inl AttributeError)"

text \<open>\<^verbatim>\<open>range(v)\<close>: the number of iterations; empty for a negative count, a
  \<^verbatim>\<open>TypeError\<close> for a string.\<close>

definition py_range :: "pyval \<Rightarrow> exn + nat" where
  "py_range v = (case v of PyInt n \<Rightarrow> Inr (nat n) | PyStr _ \<Rightarrow> Inl TypeError)"

section \<open>The cluster and the observable world\<close>

text \<open>
  \<^verbatim>\<open>bcbio.distributed.lsf\<close> is the scheduler adapter; the script reaches it only through
  \<^verbatim>\<open>submit_job\<close>, \<^verbatim>\<open>are_running\<close> and \<^verbatim>\<open>stop_job\<close>. Each of them
  is a function of the scheduler's state \<open>'s\<close> that returns a value or raises, and may
  change that state. Job identifiers \<open>'j\<close> are opaque.
\<close>

record ('s, 'j) cluster =
  submit_job :: "string list \<Rightarrow> pyval list \<Rightarrow> 's \<Rightarrow> (exn + 'j) \<times> 's"
  are_running :: "'j list \<Rightarrow> 's \<Rightarrow> (exn + bool) \<times> 's"
  stop_job :: "'j \<Rightarrow> 's \<Rightarrow> (exn + unit) \<times> 's"

text \<open>
  What lies outside the script: the configuration loader, the module's global names that
  denote a cluster platform, and what the passing of time (\<^verbatim>\<open>time.sleep\<close>) does to
  the scheduler.
\<close>

record ('s, 'j) env =
  load_config :: "string \<Rightarrow> exn + config"
  globals :: "string \<rightharpoonup> ('s, 'j) cluster"
  sleep :: "nat \<Rightarrow> 's \<Rightarrow> 's"

text \<open>Every call that leaves the script is recorded, with what it returned.\<close>

datatype 'j event =
    Printed string
  | Submitted "string list" "pyval list" "exn + 'j"
  | Polled "'j list" "exn + bool"
  | Slept nat
  | Stopped 'j "exn + unit"

record ('s, 'j) world =
  sched :: 's
  trace :: "'j event list"

definition print :: "string \<Rightarrow> ('s, 'j) world \<Rightarrow> ('s, 'j) world" where
  "print msg w = w\<lparr>trace := trace w @ [Printed msg]\<rparr>"

definition call_sleep :: "('s, 'j) env \<Rightarrow> nat \<Rightarrow> ('s, 'j) world \<Rightarrow> ('s, 'j) world" where
  "call_sleep e n w = \<lparr>sched = sleep e n (sched w), trace = trace w @ [Slept n]\<rparr>"

definition call_submit_job ::
  "('s, 'j) cluster \<Rightarrow> string list \<Rightarrow> pyval list \<Rightarrow> ('s, 'j) world \<Rightarrow> (exn + 'j) \<times> ('s, 'j) world" where
  "call_submit_job c args cl w =
     (case submit_job c args cl (sched w) of
        (r, s') \<Rightarrow> (r, \<lparr>sched = s', trace = trace w @ [Submitted args cl r]\<rparr>))"

definition call_are_running ::
  "('s, 'j) cluster \<Rightarrow> 'j list \<Rightarrow> ('s, 'j) world \<Rightarrow> (exn + bool) \<times> ('s, 'j) world" where
  "call_are_running c jobids w =
     (case are_running c jobids (sched w) of
        (r, s') \<Rightarrow> (r, \<lparr>sched = s', trace = trace w @ [Polled jobids r]\<rparr>))"

definition call_stop_job ::
  "('s, 'j) cluster \<Rightarrow> 'j \<Rightarrow> ('s, 'j) world \<Rightarrow> (exn + unit) \<times> ('s, 'j) world" where
  "call_stop_job c jobid w =
     (case stop_job c jobid (sched w) of
        (r, s') \<Rightarrow> (r, \<lparr>sched = s', trace = trace w @ [Stopped jobid r]\<rparr>))"

section \<open>The script \<^verbatim>\<open>distributed_nextgen_pipeline.py\<close>\<close>

text \<open>
  The list comprehension of \<^verbatim>\<open>start_workers\<close>:
  \<^verbatim>\<open>[cluster.submit_job(args, program_cl) for _ in range(n)]\<close>. A submission that raises
  ends the comprehension; the list built so far is dropped with it.
\<close>

fun submit_all ::
  "('s, 'j) cluster \<Rightarrow> string list \<Rightarrow> pyval list \<Rightarrow> nat \<Rightarrow> ('s, 'j) world
     \<Rightarrow> (exn + 'j list) \<times> ('s, 'j) world" where
  "submit_all c args cl 0 w = (Inr [], w)"
| "submit_all c args cl (Suc n) w =
     (case call_submit_job c args cl w of
        (Inl e, w1) \<Rightarrow> (Inl e, w1)
      | (Inr j, w1) \<Rightarrow>
          (case submit_all c args cl n w1 of
             (Inl e, w2) \<Rightarrow> (Inl e, w2)
           | (Inr js, w2) \<Rightarrow> (Inr (j # js), w2)))"

text \<open>
  The three polling loops have one shape. With \<open>target = True\<close> it is
  \<^verbatim>\<open>while not(cluster.are_running(jobids)): time.sleep(5)\<close>, with \<open>target = False\<close> it is
  \<^verbatim>\<open>while cluster.are_running(jobids): time.sleep(5)\<close>. Nothing bounds the number of
  rounds, so the loop is a partial function: \<open>None\<close> is the loop that never ends.
\<close>

partial_function (option) poll_until ::
  "('s, 'j) env \<Rightarrow> ('s, 'j) cluster \<Rightarrow> bool \<Rightarrow> 'j list \<Rightarrow> ('s, 'j) world
     \<Rightarrow> ((exn + unit) \<times> ('s, 'j) world) option" where
  "poll_until e c target jobids w =
     (case call_are_running c jobids w of
        (Inl x, w1) \<Rightarrow> Some (Inl x, w1)
      | (Inr b, w1) \<Rightarrow>
          if b = target then Some (Inr (), w1)
          else poll_until e c target jobids (call_sleep e 5 w1))"

declare poll_until.simps [code]

definition start_workers ::
  "('s, 'j) env \<Rightarrow> ('s, 'j) cluster \<Rightarrow> config \<Rightarrow> string \<Rightarrow> ('s, 'j) world
     \<Rightarrow> ((exn + 'j list) \<times> ('s, 'j) world) option" where
  "start_workers e c config config_file w =
     (case getitem2 config ''distributed'' ''platform_args'' of
        Inl x \<Rightarrow> Some (Inl x, w)
      | Inr pa \<Rightarrow>
     (case py_split pa of
        Inl x \<Rightarrow> Some (Inl x, w)
      | Inr args \<Rightarrow>
     (case getitem2 config ''analysis'' ''worker_program'' of
        Inl x \<Rightarrow> Some (Inl x, w)
      | Inr wp \<Rightarrow>
     (case getitem2 config ''distributed'' ''num_workers'' of
        Inl x \<Rightarrow> Some (Inl x, w)
      | Inr nw \<Rightarrow>
     (case py_range nw of
        Inl x \<Rightarrow> Some (Inl x, w)
      | Inr n \<Rightarrow>
     (case submit_all c args [wp, PyStr config_file] n w of
        (Inl x, w1) \<Rightarrow> Some (Inl x, w1)
      | (Inr jobids, w1) \<Rightarrow>
     (case poll_until e c True jobids w1 of
        None \<Rightarrow> None
      | Some (Inl x, w2) \<Rightarrow> Some (Inl x, w2)
      | Some (Inr _, w2) \<Rightarrow> Some (Inr jobids, w2))))))))"

text \<open>
  \<^verbatim>\<open>if run_info_yaml: program_cl.append(run_info_yaml)\<close>: the optional argument is
  appended when it is a non-empty string; its default is \<^verbatim>\<open>None\<close>.
\<close>

definition optional_arg :: "string option \<Rightarrow> pyval list" where
  "optional_arg v = (case v of None \<Rightarrow> [] | Some s \<Rightarrow> if s = [] then [] else [PyStr s])"

definition run_analysis ::
  "('s, 'j) env \<Rightarrow> string \<Rightarrow> string \<Rightarrow> string option \<Rightarrow> ('s, 'j) cluster \<Rightarrow> config
     \<Rightarrow> ('s, 'j) world \<Rightarrow> ((exn + unit) \<times> ('s, 'j) world) option" where
  "run_analysis e config_file fc_dir run_info_yaml c config w =
     (case getitem2 config ''distributed'' ''platform_args'' of
        Inl x \<Rightarrow> Some (Inl x, w)
      | Inr pa \<Rightarrow>
     (case py_split pa of
        Inl x \<Rightarrow> Some (Inl x, w)
      | Inr args \<Rightarrow>
     (case getitem2 config ''analysis'' ''process_program'' of
        Inl x \<Rightarrow> Some (Inl x, w)
      | Inr pp \<Rightarrow>
     (case call_submit_job c args
             ([pp, PyStr config_file, PyStr fc_dir] @ optional_arg run_info_yaml) w of
        (Inl x, w1) \<Rightarrow> Some (Inl x, w1)
      | (Inr jobid, w1) \<Rightarrow>
     (case poll_until e c True [jobid] w1 of
        None \<Rightarrow> None
      | Some (Inl x, w2) \<Rightarrow> Some (Inl x, w2)
      | Some (Inr _, w2) \<Rightarrow> poll_until e c False [jobid] w2)))))"

text \<open>
  \<^verbatim>\<open>stop_workers\<close>: the bare \<^verbatim>\<open>except: pass\<close> is the \<open>Inl\<close> branch, which goes on
  with the next job exactly as the \<open>Inr\<close> branch does.
\<close>

fun stop_workers ::
  "('s, 'j) cluster \<Rightarrow> 'j list \<Rightarrow> ('s, 'j) world \<Rightarrow> (exn + unit) \<times> ('s, 'j) world" where
  "stop_workers c [] w = (Inr (), w)"
| "stop_workers c (jobid # jobids) w =
     (case call_stop_job c jobid w of
        (Inl x, w1) \<Rightarrow> stop_workers c jobids w1
      | (Inr _, w1) \<Rightarrow> stop_workers c jobids w1)"

text \<open>
  \<^verbatim>\<open>try: body finally: handler\<close>: the handler runs after the body whatever the body did;
  an exception of the handler replaces the body's outcome, otherwise the body's outcome
  (value or exception) is the outcome of the statement.
\<close>

definition try_finally ::
  "((exn + 'a) \<times> 'w) option \<Rightarrow> ('w \<Rightarrow> (exn + unit) \<times> 'w) \<Rightarrow> ((exn + 'a) \<times> 'w) option" where
  "try_finally body handler =
     (case body of
        None \<Rightarrow> None
      | Some (r, w1) \<Rightarrow>
          (case handler w1 of
             (Inl x, w2) \<Rightarrow> Some (Inl x, w2)
           | (Inr _, w2) \<Rightarrow> Some (r, w2)))"

text \<open>
  \<^verbatim>\<open>globals()[name]\<close>: the globals are keyed by strings, so any other key is missing.
  A global that is not a cluster platform is an adapter whose three operations raise.
\<close>

definition globals_lookup :: "('s, 'j) env \<Rightarrow> pyval \<Rightarrow> exn + ('s, 'j) cluster" where
  "globals_lookup e v =
     (case v of
        PyInt n \<Rightarrow> Inl (KeyError (PyInt n))
      | PyStr name \<Rightarrow>
          (case globals e name of None \<Rightarrow> Inl (KeyError (PyStr name)) | Some c \<Rightarrow> Inr c))"

definition main ::
  "('s, 'j) env \<Rightarrow> string \<Rightarrow> string \<Rightarrow> string option \<Rightarrow> ('s, 'j) world
     \<Rightarrow> ((exn + unit) \<times> ('s, 'j) world) option" where
  "main e config_file fc_dir run_info_yaml w =
     (case load_config e config_file of
        Inl x \<Rightarrow> Some (Inl x, w)
      | Inr config \<Rightarrow>
     (case getitem2 config ''algorithm'' ''num_cores'' of
        Inl x \<Rightarrow> Some (Inl x, w)
      | Inr nc \<Rightarrow>
     (if nc \<noteq> PyStr ''messaging''
      then Some (Inl (AssertionError ''Designed for use with messaging parallelization''), w)
      else
     (case getitem2 config ''distributed'' ''cluster_platform'' of
        Inl x \<Rightarrow> Some (Inl x, w)
      | Inr cp \<Rightarrow>
     (case globals_lookup e cp of
        Inl x \<Rightarrow> Some (Inl x, w)
      | Inr c \<Rightarrow>
     (case start_workers e c config config_file (print ''Starting cluster workers'' w) of
        None \<Rightarrow> None
      | Some (Inl x, w1) \<Rightarrow> Some (Inl x, w1)
      | Some (Inr jobids, w1) \<Rightarrow>
          try_finally
            (run_analysis e config_file fc_dir run_info_yaml c config
               (print ''Running analysis'' w1))
            (\<lambda>w2. stop_workers c jobids (print ''Cleaning up cluster workers'' w2))))))))"


text \<open>
  The script is run as \<^verbatim>\<open>main(*sys.argv[1:])\<close>: an exception that leaves \<^verbatim>\<open>main\<close>
  ends the interpreter with status 1, a normal return with status 0.
\<close>

definition script_exit_status :: "exn + unit \<Rightarrow> nat" where
  "script_exit_status r = (case r of Inl _ \<Rightarrow> 1 | Inr _ \<Rightarrow> 0)"

section \<open>Reading a trace\<close>

text \<open>\<open>k\<close> rounds of a polling loop that saw \<open>b\<close> each time and slept.\<close>

definition rounds :: "'j list \<Rightarrow> bool \<Rightarrow> nat \<Rightarrow> 'j event list" where
  "rounds jobids b k = concat (replicate k [Polled jobids (Inr b), Slept 5])"

text \<open>The jobs presented to \<^verbatim>\<open>stop_job\<close>, in order, whatever the call returned.\<close>

fun stops :: "'j event list \<Rightarrow> 'j list" where
  "stops [] = []"
| "stops (Stopped j r # es) = j # stops es"
| "stops (ev # es) = stops es"

text \<open>The handles that successful submissions of the command line \<open>cl\<close> returned, in order.\<close>

fun handles :: "pyval list \<Rightarrow> 'j event list \<Rightarrow> 'j list" where
  "handles cl [] = []"
| "handles cl (Submitted args cl' (Inr j) # es) =
     (if cl' = cl then j # handles cl es else handles cl es)"
| "handles cl (ev # es) = handles cl es"

text \<open>The number of calls of \<^verbatim>\<open>submit_job\<close>, successful or not.\<close>

fun submissions :: "'j event list \<Rightarrow> nat" where
  "submissions [] = 0"
| "submissions (Submitted args cl r # es) = Suc (submissions es)"
| "submissions (ev # es) = submissions es"

section \<open>The module \<^verbatim>\<open>bcbio/pipeline/toplevel.py\<close>\<close>

text \<open>
  \<^verbatim>\<open>posixpath.join\<close> for one more component, and \<^verbatim>\<open>posixpath.basename\<close>.
\<close>

definition path_join2 :: "string \<Rightarrow> string \<Rightarrow> string" where
  "path_join2 path b =
     (if b \<noteq> [] \<and> hd b = CHR ''/'' then b
      else if path = [] \<or> last path = CHR ''/'' then path @ b
      else path @ ''/'' @ b)"

definition basename :: "string \<Rightarrow> string" where
  "basename p = rev (takeWhile (\<lambda>c. c \<noteq> CHR ''/'') (rev p))"

text \<open>
  The operating system as \<^verbatim>\<open>toplevel.py\<close> uses it, over a state \<open>'o\<close>:
  \<^verbatim>\<open>os.path.exists\<close>, \<^verbatim>\<open>os.getcwd\<close>, \<^verbatim>\<open>os.makedirs\<close>,
  \<^verbatim>\<open>subprocess.check_call\<close>, and entering and leaving the context manager
  \<^verbatim>\<open>bcbio.utils.chdir\<close>.
\<close>

record 'o os_env =
  path_exists :: "string \<Rightarrow> 'o \<Rightarrow> bool"
  getcwd :: "'o \<Rightarrow> string"
  makedirs :: "string \<Rightarrow> 'o \<Rightarrow> (exn + unit) \<times> 'o"
  chdir_enter :: "string \<Rightarrow> 'o \<Rightarrow> (exn + unit) \<times> 'o"
  chdir_exit :: "'o \<Rightarrow> 'o"
  check_call :: "pyval list \<Rightarrow> 'o \<Rightarrow> (exn + unit) \<times> 'o"

text \<open>The state, and the command lines handed to \<^verbatim>\<open>subprocess.check_call\<close> so far.\<close>

record 'o os_world =
  os :: 'o
  invoked :: "pyval list list"

definition call_check_call ::
  "'o os_env \<Rightarrow> pyval list \<Rightarrow> 'o os_world \<Rightarrow> (exn + unit) \<times> 'o os_world" where
  "call_check_call oe cl w =
     (case check_call oe cl (os w) of
        (r, s') \<Rightarrow> (r, \<lparr>os = s', invoked = invoked w @ [cl]\<rparr>))"

text \<open>A path component taken from the configuration: the string methods that
  \<^verbatim>\<open>posixpath.join\<close> calls on its first argument exist on strings only.\<close>

definition as_path :: "pyval \<Rightarrow> exn + string" where
  "as_path v = (case v of PyStr s \<Rightarrow> Inr s | PyInt _ \<Rightarrow> Inl AttributeError)"

text \<open>The \<^verbatim>\<open>else\<close> branch of \<^verbatim>\<open>_get_run_yaml\<close>.\<close>

definition default_run_yaml :: "config \<Rightarrow> string \<Rightarrow> exn + string" where
  "default_run_yaml config fc_dir =
     (case getitem2 config ''analysis'' ''store_dir'' of
        Inl x \<Rightarrow> Inl x
      | Inr sd \<Rightarrow>
          (case as_path sd of
             Inl x \<Rightarrow> Inl x
           | Inr d \<Rightarrow> Inr (path_join2 (path_join2 d (basename fc_dir)) ''run_info.yaml'')))"

text \<open>\<^verbatim>\<open>_get_run_yaml\<close>; \<open>remote_info\<close> is a dictionary of strings.\<close>

definition get_run_yaml ::
  "'o os_env \<Rightarrow> (string \<rightharpoonup> string) \<Rightarrow> string \<Rightarrow> config \<Rightarrow> 'o \<Rightarrow> exn + string option" where
  "get_run_yaml oe remote_info fc_dir config s =
     (case (case remote_info ''run_yaml'' of
              None \<Rightarrow> default_run_yaml config fc_dir
            | Some p \<Rightarrow> if p \<noteq> [] then Inr p else default_run_yaml config fc_dir) of
        Inl x \<Rightarrow> Inl x
      | Inr run_yaml \<Rightarrow>
          if \<not> path_exists oe run_yaml s then Inr None else Inr (Some run_yaml))"

text \<open>Lines 82 to 86 of \<^verbatim>\<open>_run_analysis\<close>: which program to start.\<close>

definition select_prog :: "config \<Rightarrow> exn + pyval" where
  "select_prog config =
     (case getitem2 config ''algorithm'' ''num_cores'' of
        Inl x \<Rightarrow> Inl x
      | Inr nc \<Rightarrow>
          if nc = PyStr ''messaging''
          then (case config ''analysis'' of
                  None \<Rightarrow> Inl (KeyError (PyStr ''analysis''))
                | Some sec \<Rightarrow>
                    (case sec ''distributed_process_program'' of
                       None \<Rightarrow> Inr (PyStr ''distributed_nextgen_pipeline.py'')
                     | Some v \<Rightarrow> Inr v))
          else getitem2 config ''analysis'' ''process_program'')"

text \<open>The body of the \<^verbatim>\<open>with utils.chdir(analysis_dir)\<close> statement.\<close>

definition in_analysis_dir ::
  "'o os_env \<Rightarrow> config \<Rightarrow> string \<Rightarrow> string \<Rightarrow> string option \<Rightarrow> 'o os_world
     \<Rightarrow> (exn + unit) \<times> 'o os_world" where
  "in_analysis_dir oe config config_file fc_dir run_yaml w =
     (case select_prog config of
        Inl x \<Rightarrow> (Inl x, w)
      | Inr prog \<Rightarrow>
          call_check_call oe ([prog, PyStr config_file, PyStr fc_dir] @ optional_arg run_yaml) w)"

text \<open>
  \<^verbatim>\<open>if not os.path.exists(analysis_dir): os.makedirs(analysis_dir)\<close>
\<close>

definition prepare_dir :: "'o os_env \<Rightarrow> string \<Rightarrow> 'o os_world \<Rightarrow> (exn + unit) \<times> 'o os_world" where
  "prepare_dir oe d w =
     (if \<not> path_exists oe d (os w)
      then (case makedirs oe d (os w) of (r, s1) \<Rightarrow> (r, w\<lparr>os := s1\<rparr>))
      else (Inr (), w))"

text \<open>
  \<^verbatim>\<open>with utils.chdir(d): body\<close>. If entering raises, the body does not run; otherwise
  the body runs, the context is left whatever the body did, and the statement ends as the
  body did.
\<close>

definition with_chdir ::
  "'o os_env \<Rightarrow> string \<Rightarrow> ('o os_world \<Rightarrow> (exn + 'a) \<times> 'o os_world) \<Rightarrow> 'o os_world
     \<Rightarrow> (exn + 'a) \<times> 'o os_world" where
  "with_chdir oe d body w =
     (case chdir_enter oe d (os w) of
        (Inl x, s1) \<Rightarrow> (Inl x, w\<lparr>os := s1\<rparr>)
      | (Inr _, s1) \<Rightarrow>
          (case body (w\<lparr>os := s1\<rparr>) of
             (r, w2) \<Rightarrow> (r, w2\<lparr>os := chdir_exit oe (os w2)\<rparr>)))"

text \<open>\<^verbatim>\<open>_run_analysis\<close>; it returns the analysis directory.\<close>

definition toplevel_run_analysis ::
  "'o os_env \<Rightarrow> string \<Rightarrow> (string \<rightharpoonup> string) \<Rightarrow> config \<Rightarrow> string \<Rightarrow> 'o os_world
     \<Rightarrow> (exn + string) \<times> 'o os_world" where
  "toplevel_run_analysis oe fc_dir remote_info config config_file w =
     (case get_run_yaml oe remote_info fc_dir config (os w) of
        Inl x \<Rightarrow> (Inl x, w)
      | Inr run_yaml \<Rightarrow>
     (case config ''analysis'' of
        None \<Rightarrow> (Inl (KeyError (PyStr ''analysis'')), w)
      | Some sec \<Rightarrow>
     (case remote_info ''directory'' of
        None \<Rightarrow> (Inl (KeyError (PyStr ''directory'')), w)
      | Some directory \<Rightarrow>
     (case as_path (case sec ''base_dir'' of None \<Rightarrow> PyStr (getcwd oe (os w)) | Some v \<Rightarrow> v) of
        Inl x \<Rightarrow> (Inl x, w)
      | Inr base_dir \<Rightarrow>
     (let analysis_dir = path_join2 base_dir (basename directory) in
      case prepare_dir oe analysis_dir w of
        (Inl x, w1) \<Rightarrow> (Inl x, w1)
      | (Inr _, w1) \<Rightarrow>
     (case with_chdir oe analysis_dir
             (in_analysis_dir oe config config_file fc_dir run_yaml) w1 of
        (Inl x, w2) \<Rightarrow> (Inl x, w2)
      | (Inr _, w2) \<Rightarrow> (Inr analysis_dir, w2)))))))"

section \<open>Schedulers that answer after a number of rounds\<close>

text \<open>
  \<open>settles e c target jobids k s\<close>: starting from scheduler state \<open>s\<close>, the first \<open>k\<close>
  calls of \<^verbatim>\<open>are_running\<close>, each followed by a sleep of 5, return the opposite of
  \<open>target\<close>, and the next call returns \<open>target\<close>. \<open>after_polls\<close> is the scheduler state
  after that last call.
\<close>

fun settles :: "('s, 'j) env \<Rightarrow> ('s, 'j) cluster \<Rightarrow> bool \<Rightarrow> 'j list \<Rightarrow> nat \<Rightarrow> 's \<Rightarrow> bool" where
  "settles e c target jobids 0 s = (fst (are_running c jobids s) = Inr target)"
| "settles e c target jobids (Suc k) s =
     (fst (are_running c jobids s) = Inr (\<not> target)
      \<and> settles e c target jobids k (sleep e 5 (snd (are_running c jobids s))))"

fun after_polls :: "('s, 'j) env \<Rightarrow> ('s, 'j) cluster \<Rightarrow> 'j list \<Rightarrow> nat \<Rightarrow> 's \<Rightarrow> 's" where
  "after_polls e c jobids 0 s = snd (are_running c jobids s)"
| "after_polls e c jobids (Suc k) s =
     after_polls e c jobids k (sleep e 5 (snd (are_running c jobids s)))"

section \<open>A sample installation\<close>

text \<open>
  A configuration for \<open>n\<close> workers on the platform \<^verbatim>\<open>lsf\<close>, and a scheduler whose state
  is the next job number and a clock. Jobs are numbered from 0; the submission that would
  create job \<open>bad\<close> is rejected; every job counts as running from time 5 up to time 15;
  stopping job 0 fails. Sleeping advances the clock.
\<close>

definition sample_config :: "pyval \<Rightarrow> int \<Rightarrow> config" where
  "sample_config cores n =
     map_of
       [(''algorithm'', map_of [(''num_cores'', cores)]),
        (''distributed'',
           map_of [(''cluster_platform'', PyStr ''lsf''),
                   (''platform_args'', PyStr ''-q  hours''),
                   (''num_workers'', PyInt n)]),
        (''analysis'',
           map_of [(''worker_program'', PyStr ''worker.py''),
                   (''process_program'', PyStr ''analysis.py''),
                   (''store_dir'', PyStr ''/store'')])]"

definition sample_cluster :: "nat \<Rightarrow> (nat \<times> nat, nat) cluster" where
  "sample_cluster bad =
     \<lparr>submit_job = (\<lambda>args cl (next, t).
         if next = bad then (Inl (OtherError ''SubmissionError''), (next, t))
         else (Inr next, (Suc next, t))),
      are_running = (\<lambda>jobids (next, t). (Inr (5 \<le> t \<and> t < 15), (next, t))),
      stop_job = (\<lambda>jobid (next, t).
         if jobid = 0 then (Inl (OtherError ''CancellationError''), (next, t))
         else (Inr (), (next, t)))\<rparr>"

definition sample_env :: "nat \<Rightarrow> pyval \<Rightarrow> int \<Rightarrow> (nat \<times> nat, nat) env" where
  "sample_env bad cores n =
     \<lparr>load_config = (\<lambda>f. Inr (sample_config cores n)),
      globals = map_of [(''lsf'', sample_cluster bad)],
      sleep = (\<lambda>k (next, t). (next, t + k))\<rparr>"

definition sample_world :: "nat \<Rightarrow> (nat \<times> nat, nat) world" where
  "sample_world t = \<lparr>sched = (0, t), trace = []\<rparr>"

text \<open>A file system given by the list of the paths that exist; every command succeeds.\<close>

definition sample_os :: "(string list) os_env" where
  "sample_os =
     \<lparr>path_exists = (\<lambda>p s. p \<in> set s),
      getcwd = (\<lambda>s. ''/work''),
      makedirs = (\<lambda>p s. (Inr (), p # s)),
      chdir_enter = (\<lambda>p s. (Inr (), s)),
      chdir_exit = (\<lambda>s. s),
      check_call = (\<lambda>cl s. (Inr (), s))\<rparr>"

definition sample_remote_info :: "string \<rightharpoonup> string" where
  "sample_remote_info = map_of [(''directory'', ''/seq/110105_run'')]"

definition sample_os_world :: "string list \<Rightarrow> (string list) os_world" where
  "sample_os_world paths = \<lparr>os = paths, invoked = []\<rparr>"



section \<open>Facts about traces\<close>

lemma stops_append: "stops (xs @ ys) = stops xs @ stops ys"
  by (induction xs rule: stops.induct) simp_all

lemma handles_append: "handles cl (xs @ ys) = handles cl xs @ handles cl ys"
  by (induction cl xs rule: handles.induct) simp_all

lemma submissions_append: "submissions (xs @ ys) = submissions xs + submissions ys"
  by (induction xs rule: submissions.induct) simp_all

lemma handles_other: "cl' \<noteq> cl \<Longrightarrow> handles cl (Submitted args cl' r # es) = handles cl es"
  by (cases r) simp_all

lemma rounds_quiet:
  "stops (rounds jobids b k) = []"
  "handles cl (rounds jobids b k) = []"
  "submissions (rounds jobids b k) = 0"
  by (induction k) (simp_all add: rounds_def)

lemma submitted_events:
  "stops (map (\<lambda>j. Submitted args cl (Inr j)) js) = []"
  "handles cl (map (\<lambda>j. Submitted args cl (Inr j)) js) = js"
  "submissions (map (\<lambda>j. Submitted args cl (Inr j)) js) = length js"
  by (induction js) simp_all

lemma stopped_events:
  "length rs = length js \<Longrightarrow> stops (map (\<lambda>(j, r). Stopped j r) (zip js rs)) = js"
  "handles cl (map (\<lambda>(j, r). Stopped j r) (zip js rs)) = []"
  "submissions (map (\<lambda>(j, r). Stopped j r) (zip js rs)) = 0"
proof -
  show "length rs = length js \<Longrightarrow> stops (map (\<lambda>(j, r). Stopped j r) (zip js rs)) = js"
    by (induction js rs rule: list_induct2') simp_all
  show "handles cl (map (\<lambda>(j, r). Stopped j r) (zip js rs)) = []"
    by (induction js rs rule: list_induct2') simp_all
  show "submissions (map (\<lambda>(j, r). Stopped j r) (zip js rs)) = 0"
    by (induction js rs rule: list_induct2') simp_all
qed

section \<open>The submission loop\<close>

lemma call_submit_job_trace:
  "call_submit_job c args cl w = (r, w') \<Longrightarrow> trace w' = trace w @ [Submitted args cl r]"
  by (auto simp: call_submit_job_def split: prod.splits)

lemma submit_all_ok:
  "submit_all c args cl n w = (Inr js, w') \<Longrightarrow>
     length js = n \<and> trace w' = trace w @ map (\<lambda>j. Submitted args cl (Inr j)) js"
proof (induction n arbitrary: w js w')
  case 0
  then show ?case by simp
next
  case (Suc n)
  obtain r w1 where sj: "call_submit_job c args cl w = (r, w1)"
    by (cases "call_submit_job c args cl w")
  show ?case
  proof (cases r)
    case (Inl x)
    with Suc.prems sj show ?thesis by simp
  next
    case (Inr j)
    obtain r2 w2 where rest: "submit_all c args cl n w1 = (r2, w2)"
      by (cases "submit_all c args cl n w1")
    show ?thesis
    proof (cases r2)
      case (Inl x)
      with Suc.prems sj \<open>r = Inr j\<close> rest show ?thesis by simp
    next
      case (Inr js2)
      with Suc.prems sj \<open>r = Inr j\<close> rest have js: "js = j # js2" and w': "w' = w2"
        by simp_all
      from Suc.IH[of w1 js2 w2] rest Inr have "length js2 = n"
        and "trace w2 = trace w1 @ map (\<lambda>j. Submitted args cl (Inr j)) js2" by simp_all
      with call_submit_job_trace[OF sj] \<open>r = Inr j\<close> show ?thesis by (simp add: js w')
    qed
  qed
qed

lemma submit_all_fail:
  "submit_all c args cl n w = (Inl x, w') \<Longrightarrow>
     \<exists>js. length js < n
         \<and> trace w' = trace w @ map (\<lambda>j. Submitted args cl (Inr j)) js @ [Submitted args cl (Inl x)]"
proof (induction n arbitrary: w w')
  case 0
  then show ?case by simp
next
  case (Suc n)
  obtain r w1 where sj: "call_submit_job c args cl w = (r, w1)"
    by (cases "call_submit_job c args cl w")
  show ?case
  proof (cases r)
    case (Inl y)
    with Suc.prems sj have "y = x" "w' = w1" by simp_all
    with call_submit_job_trace[OF sj] Inl
    have "trace w' = trace w @ [Submitted args cl (Inl x)]" by simp
    then show ?thesis by (intro exI[of _ "[]"]) simp
  next
    case (Inr j)
    obtain r2 w2 where rest: "submit_all c args cl n w1 = (r2, w2)"
      by (cases "submit_all c args cl n w1")
    show ?thesis
    proof (cases r2)
      case (Inl y)
      with Suc.prems sj Inr rest have "y = x" "w' = w2" by simp_all
      with Suc.IH[of w1 w2] rest Inl obtain js where "length js < n"
        and "trace w2 = trace w1 @ map (\<lambda>j. Submitted args cl (Inr j)) js @ [Submitted args cl (Inl x)]"
        by auto
      with call_submit_job_trace[OF sj] Inr
      have "length (j # js) < Suc n
          \<and> trace w' = trace w @ map (\<lambda>j. Submitted args cl (Inr j)) (j # js) @ [Submitted args cl (Inl x)]"
        by (simp add: \<open>w' = w2\<close>)
      then show ?thesis by blast
    next
      case (Inr js2)
      with Suc.prems sj \<open>r = Inr j\<close> rest show ?thesis by simp
    qed
  qed
qed

section \<open>The polling loop\<close>

lemma poll_until_trace:
  assumes "poll_until e c target jobids w = Some (r, w')"
  shows "\<exists>k. trace w' = trace w @ rounds jobids (\<not> target) k
            @ [Polled jobids (case r of Inl x \<Rightarrow> Inl x | Inr u \<Rightarrow> Inr target)]"
proof -
  let ?P = "\<lambda>(e :: ('s, 'j) env) (c :: ('s, 'j) cluster) target jobids (w :: ('s, 'j) world)
              (y :: (exn + unit) \<times> ('s, 'j) world).
      \<exists>k. trace (snd y) = trace w @ rounds jobids (\<not> target) k
            @ [Polled jobids (case fst y of Inl x \<Rightarrow> Inl x | Inr u \<Rightarrow> Inr target)]"
  have "?P e c target jobids w (r, w')"
  proof (rule poll_until.raw_induct[where P = ?P, OF _ assms])
    fix poll e c target jobids and w :: "('s, 'j) world" and y
    assume IH: "\<And>e c target jobids w y. poll e c target jobids w = Some y \<Longrightarrow> ?P e c target jobids w y"
      and eq: "(case call_are_running c jobids w of
                  (Inl x, w1) \<Rightarrow> Some (Inl x, w1)
                | (Inr b, w1) \<Rightarrow>
                    if b = target then Some (Inr (), w1)
                    else poll e c target jobids (call_sleep e 5 w1)) = Some y"
    obtain r s' where ar: "are_running c jobids (sched w) = (r, s')"
      by (cases "are_running c jobids (sched w)")
    show "?P e c target jobids w y"
    proof (cases r)
      case (Inl x)
      with eq ar have "y = (Inl x, \<lparr>sched = s', trace = trace w @ [Polled jobids (Inl x)]\<rparr>)"
        by (simp add: call_are_running_def)
      then have "trace (snd y) = trace w @ rounds jobids (\<not> target) 0
            @ [Polled jobids (case fst y of Inl x \<Rightarrow> Inl x | Inr u \<Rightarrow> Inr target)]"
        by (simp add: rounds_def)
      then show ?thesis by blast
    next
      case (Inr b)
      show ?thesis
      proof (cases "b = target")
        case True
        with eq ar Inr
        have "y = (Inr (), \<lparr>sched = s', trace = trace w @ [Polled jobids (Inr target)]\<rparr>)"
          by (simp add: call_are_running_def)
        then have "trace (snd y) = trace w @ rounds jobids (\<not> target) 0
            @ [Polled jobids (case fst y of Inl x \<Rightarrow> Inl x | Inr u \<Rightarrow> Inr target)]"
          by (simp add: rounds_def)
        then show ?thesis by blast
      next
        case False
        define w1 where
          "w1 = call_sleep e 5 \<lparr>sched = s', trace = trace w @ [Polled jobids (Inr b)]\<rparr>"
        from False eq ar Inr have "poll e c target jobids w1 = Some y"
          by (simp add: call_are_running_def w1_def)
        from IH[OF this] obtain k where
          k: "trace (snd y) = trace w1 @ rounds jobids (\<not> target) k
            @ [Polled jobids (case fst y of Inl x \<Rightarrow> Inl x | Inr u \<Rightarrow> Inr target)]"
          by blast
        from False have b: "b = (\<not> target)" by auto
        have "trace w1 = trace w @ [Polled jobids (Inr (\<not> target)), Slept 5]"
          by (simp add: w1_def call_sleep_def b)
        with k have "trace (snd y) = trace w @ rounds jobids (\<not> target) (Suc k)
            @ [Polled jobids (case fst y of Inl x \<Rightarrow> Inl x | Inr u \<Rightarrow> Inr target)]"
          by (simp add: rounds_def)
        then show ?thesis by blast
      qed
    qed
  qed
  then show ?thesis by simp
qed

lemma poll_until_never:
  fixes w :: "('s, 'j) world"
  assumes inv0: "I (sched w)"
    and step: "\<And>s. I s \<Longrightarrow> fst (are_running c jobids s) = Inr (\<not> target)
                       \<and> I (sleep e 5 (snd (are_running c jobids s)))"
  shows "poll_until e c target jobids w = None"
proof (rule ccontr)
  assume "poll_until e c target jobids w \<noteq> None"
  then obtain y where y: "poll_until e c target jobids w = Some y" by auto
  let ?P = "\<lambda>(e' :: ('s, 'j) env) (c' :: ('s, 'j) cluster) target' jobids' (w :: ('s, 'j) world)
              (y :: (exn + unit) \<times> ('s, 'j) world).
      \<not> (e' = e \<and> c' = c \<and> target' = target \<and> jobids' = jobids \<and> I (sched w))"
  have "?P e c target jobids w y"
  proof (rule poll_until.raw_induct[where P = ?P, OF _ y])
    fix poll e' c' target' jobids' and w :: "('s, 'j) world" and y
    assume IH: "\<And>e c target jobids w y. poll e c target jobids w = Some y \<Longrightarrow> ?P e c target jobids w y"
      and eq: "(case call_are_running c' jobids' w of
                  (Inl x, w1) \<Rightarrow> Some (Inl x, w1)
                | (Inr b, w1) \<Rightarrow>
                    if b = target' then Some (Inr (), w1)
                    else poll e' c' target' jobids' (call_sleep e' 5 w1)) = Some y"
    show "?P e' c' target' jobids' w y"
    proof
      assume a: "e' = e \<and> c' = c \<and> target' = target \<and> jobids' = jobids \<and> I (sched w)"
      obtain r s' where ar: "are_running c jobids (sched w) = (r, s')"
        by (cases "are_running c jobids (sched w)")
      from step[of "sched w"] a ar have r: "r = Inr (\<not> target)" and I': "I (sleep e 5 s')"
        by simp_all
      define w1 where
        "w1 = call_sleep e 5 \<lparr>sched = s', trace = trace w @ [Polled jobids (Inr (\<not> target))]\<rparr>"
      from eq a ar r have "poll e c target jobids w1 = Some y"
        by (simp add: call_are_running_def w1_def)
      from IH[OF this] have "\<not> I (sched w1)" by simp
      with I' show False by (simp add: w1_def call_sleep_def)
    qed
  qed
  with inv0 show False by simp
qed

lemma poll_until_no_answer:
  fixes w :: "('s, 'j) world"
  assumes inv0: "I (sched w)"
    and step: "\<And>s. I s \<Longrightarrow> fst (are_running c jobids s) \<noteq> Inr target
                       \<and> I (sleep e 5 (snd (are_running c jobids s)))"
  shows "poll_until e c target jobids w \<noteq> Some (Inr (), w')"
proof
  assume y: "poll_until e c target jobids w = Some (Inr (), w')"
  let ?P = "\<lambda>(e' :: ('s, 'j) env) (c' :: ('s, 'j) cluster) target' jobids' (w :: ('s, 'j) world)
              (y :: (exn + unit) \<times> ('s, 'j) world).
      e' = e \<and> c' = c \<and> target' = target \<and> jobids' = jobids \<and> I (sched w)
        \<longrightarrow> fst y \<noteq> Inr ()"
  have "?P e c target jobids w (Inr (), w')"
  proof (rule poll_until.raw_induct[where P = ?P, OF _ y])
    fix poll e' c' target' jobids' and w :: "('s, 'j) world" and y
    assume IH: "\<And>e c target jobids w y. poll e c target jobids w = Some y \<Longrightarrow> ?P e c target jobids w y"
      and eq: "(case call_are_running c' jobids' w of
                  (Inl x, w1) \<Rightarrow> Some (Inl x, w1)
                | (Inr b, w1) \<Rightarrow>
                    if b = target' then Some (Inr (), w1)
                    else poll e' c' target' jobids' (call_sleep e' 5 w1)) = Some y"
    show "?P e' c' target' jobids' w y"
    proof
      assume a: "e' = e \<and> c' = c \<and> target' = target \<and> jobids' = jobids \<and> I (sched w)"
      obtain r s' where ar: "are_running c jobids (sched w) = (r, s')"
        by (cases "are_running c jobids (sched w)")
      from step[of "sched w"] a ar have r: "r \<noteq> Inr target" and I': "I (sleep e 5 s')"
        by simp_all
      show "fst y \<noteq> Inr ()"
      proof (cases r)
        case (Inl x)
        with eq a ar show ?thesis by (auto simp: call_are_running_def)
      next
        case (Inr b)
        with r have b: "b \<noteq> target" by simp
        define w1 where
          "w1 = call_sleep e 5 \<lparr>sched = s', trace = trace w @ [Polled jobids (Inr b)]\<rparr>"
        from eq a ar Inr b have "poll e c target jobids w1 = Some y"
          by (simp add: call_are_running_def w1_def)
        from IH[OF this] I' show ?thesis by (simp add: w1_def call_sleep_def)
      qed
    qed
  qed
  with inv0 show False by simp
qed

lemma poll_until_returns:
  "settles e c target jobids k (sched w) \<Longrightarrow>
     poll_until e c target jobids w =
       Some (Inr (), \<lparr>sched = after_polls e c jobids k (sched w),
                      trace = trace w @ rounds jobids (\<not> target) k @ [Polled jobids (Inr target)]\<rparr>)"
proof (induction k arbitrary: w)
  case 0
  then obtain s' where ar: "are_running c jobids (sched w) = (Inr target, s')"
    by (cases "are_running c jobids (sched w)") simp
  show ?case
    by (subst poll_until.simps) (simp add: call_are_running_def rounds_def ar)
next
  case (Suc k)
  obtain s' where ar: "are_running c jobids (sched w) = (Inr (\<not> target), s')"
    using Suc.prems by (cases "are_running c jobids (sched w)") simp
  define w1 where
    "w1 = call_sleep e 5 \<lparr>sched = s', trace = trace w @ [Polled jobids (Inr (\<not> target))]\<rparr>"
  have w1: "sched w1 = sleep e 5 s'"
    "trace w1 = trace w @ [Polled jobids (Inr (\<not> target)), Slept 5]"
    by (simp_all add: w1_def call_sleep_def)
  from Suc.prems ar have "settles e c target jobids k (sched w1)" by (simp add: w1)
  from Suc.IH[OF this] have
    "poll_until e c target jobids w1 =
       Some (Inr (), \<lparr>sched = after_polls e c jobids k (sched w1),
                      trace = trace w1 @ rounds jobids (\<not> target) k @ [Polled jobids (Inr target)]\<rparr>)" .
  moreover have "poll_until e c target jobids w = poll_until e c target jobids w1"
    by (subst poll_until.simps) (simp add: call_are_running_def ar w1_def)
  ultimately show ?case by (simp add: w1 ar rounds_def)
qed

section \<open>Stopping the workers\<close>

lemma stop_workers_Cons:
  "stop_workers c (jobid # jobids) w = stop_workers c jobids (snd (call_stop_job c jobid w))"
  by (simp split: prod.splits sum.splits)

lemma call_stop_job_trace:
  "trace (snd (call_stop_job c jobid w)) = trace w @ [Stopped jobid (fst (stop_job c jobid (sched w)))]"
  by (simp add: call_stop_job_def split: prod.splits)

lemma stop_workers_returns: "fst (stop_workers c jobids w) = Inr ()"
  by (induction jobids arbitrary: w) (simp_all only: stop_workers.simps(1) stop_workers_Cons fst_conv)

lemma stop_workers_trace:
  "\<exists>rs. length rs = length jobids
      \<and> trace (snd (stop_workers c jobids w))
          = trace w @ map (\<lambda>(j, r). Stopped j r) (zip jobids rs)"
proof (induction jobids arbitrary: w)
  case Nil
  then show ?case by simp
next
  case (Cons j js)
  define w1 where "w1 = snd (call_stop_job c j w)"
  from Cons.IH[of w1] obtain rs where rs: "length rs = length js"
    "trace (snd (stop_workers c js w1)) = trace w1 @ map (\<lambda>(j, r). Stopped j r) (zip js rs)"
    by blast
  let ?r = "fst (stop_job c j (sched w))"
  have "length (?r # rs) = length (j # js)
      \<and> trace (snd (stop_workers c (j # js) w))
          = trace w @ map (\<lambda>(j, r). Stopped j r) (zip (j # js) (?r # rs))"
    using rs by (simp only: stop_workers_Cons flip: w1_def) (simp add: w1_def call_stop_job_trace)
  then show ?case by blast
qed

section \<open>Starting the workers, running the analysis\<close>

lemma start_workers_unfold:
  assumes "getitem2 config ''distributed'' ''platform_args'' = Inr pa"
    and "py_split pa = Inr args"
    and "getitem2 config ''analysis'' ''worker_program'' = Inr wp"
    and "getitem2 config ''distributed'' ''num_workers'' = Inr nw"
    and "py_range nw = Inr n"
  shows "start_workers e c config config_file w =
     (case submit_all c args [wp, PyStr config_file] n w of
        (Inl x, w1) \<Rightarrow> Some (Inl x, w1)
      | (Inr jobids, w1) \<Rightarrow>
          (case poll_until e c True jobids w1 of
             None \<Rightarrow> None
           | Some (Inl x, w2) \<Rightarrow> Some (Inl x, w2)
           | Some (Inr _, w2) \<Rightarrow> Some (Inr jobids, w2)))"
  by (simp add: start_workers_def assms)

lemma run_analysis_unfold:
  assumes "getitem2 config ''distributed'' ''platform_args'' = Inr pa"
    and "py_split pa = Inr args"
    and "getitem2 config ''analysis'' ''process_program'' = Inr pp"
  shows "run_analysis e config_file fc_dir run_info_yaml c config w =
     (case call_submit_job c args
             ([pp, PyStr config_file, PyStr fc_dir] @ optional_arg run_info_yaml) w of
        (Inl x, w1) \<Rightarrow> Some (Inl x, w1)
      | (Inr jobid, w1) \<Rightarrow>
          (case poll_until e c True [jobid] w1 of
             None \<Rightarrow> None
           | Some (Inl x, w2) \<Rightarrow> Some (Inl x, w2)
           | Some (Inr _, w2) \<Rightarrow> poll_until e c False [jobid] w2))"
  by (simp add: run_analysis_def assms)

lemma start_workers_ok:
  assumes "start_workers e c config config_file w = Some (Inr jobids, w')"
  shows "\<exists>pa args wp nw n w1.
           getitem2 config ''distributed'' ''platform_args'' = Inr pa
         \<and> py_split pa = Inr args
         \<and> getitem2 config ''analysis'' ''worker_program'' = Inr wp
         \<and> getitem2 config ''distributed'' ''num_workers'' = Inr nw
         \<and> py_range nw = Inr n
         \<and> submit_all c args [wp, PyStr config_file] n w = (Inr jobids, w1)
         \<and> poll_until e c True jobids w1 = Some (Inr (), w')"
  using assms
  by (auto simp: start_workers_def split: sum.splits prod.splits option.splits)

lemma start_workers_trace:
  assumes "start_workers e c config config_file w = Some (Inr jobids, w')"
  shows "\<exists>args wp k.
           getitem2 config ''analysis'' ''worker_program'' = Inr wp
         \<and> trace w' = trace w @ map (\<lambda>j. Submitted args [wp, PyStr config_file] (Inr j)) jobids
                         @ rounds jobids False k @ [Polled jobids (Inr True)]"
proof -
  from start_workers_ok[OF assms] obtain args wp n w1 where
    wp: "getitem2 config ''analysis'' ''worker_program'' = Inr wp"
    and sub: "submit_all c args [wp, PyStr config_file] n w = (Inr jobids, w1)"
    and poll: "poll_until e c True jobids w1 = Some (Inr (), w')"
    by blast
  from poll_until_trace[OF poll] obtain k where
    "trace w' = trace w1 @ rounds jobids False k @ [Polled jobids (Inr True)]" by auto
  with submit_all_ok[OF sub] wp show ?thesis by auto
qed

lemma run_analysis_events:
  assumes "run_analysis e config_file fc_dir run_info_yaml c config w = Some (r, w')"
  shows "\<exists>seg. trace w' = trace w @ seg \<and> stops seg = [] \<and> submissions seg \<le> 1
             \<and> (\<forall>wp. handles [wp, PyStr config_file] seg = [])"
proof (cases "getitem2 config ''distributed'' ''platform_args''")
  case (Inl x)
  with assms show ?thesis by (simp add: run_analysis_def)
next
  case pa: (Inr pa)
  show ?thesis
  proof (cases "py_split pa")
    case (Inl x)
    with assms pa show ?thesis by (simp add: run_analysis_def)
  next
    case args: (Inr args)
    show ?thesis
    proof (cases "getitem2 config ''analysis'' ''process_program''")
      case (Inl x)
      with assms pa args show ?thesis by (simp add: run_analysis_def)
    next
      case pp: (Inr pp)
      define cl where "cl = [pp, PyStr config_file, PyStr fc_dir] @ optional_arg run_info_yaml"
      have "cl \<noteq> [wp, PyStr config_file]" for wp
        by (simp add: cl_def)
      note cl = handles_other[OF this]
      obtain rs w1 where sj: "call_submit_job c args cl w = (rs, w1)"
        by (cases "call_submit_job c args cl w")
      note t1 = call_submit_job_trace[OF sj]
      show ?thesis
      proof (cases rs)
        case (Inl x)
        with assms pa args pp sj have "w' = w1"
          by (simp add: run_analysis_def cl_def)
        with t1 show ?thesis by (simp add: cl)
      next
        case (Inr jobid)
        with assms pa args pp sj have run:
          "(case poll_until e c True [jobid] w1 of
              None \<Rightarrow> None
            | Some (Inl x, w2) \<Rightarrow> Some (Inl x, w2)
            | Some (Inr _, w2) \<Rightarrow> poll_until e c False [jobid] w2) = Some (r, w')"
          by (simp add: run_analysis_def cl_def)
        then obtain r1 w2 where p1: "poll_until e c True [jobid] w1 = Some (r1, w2)"
          by (cases "poll_until e c True [jobid] w1") auto
        from poll_until_trace[OF p1] obtain a where
          t2: "trace w2 = trace w1 @ rounds [jobid] False a
                  @ [Polled [jobid] (case r1 of Inl x \<Rightarrow> Inl x | Inr u \<Rightarrow> Inr True)]"
          by auto
        show ?thesis
        proof (cases r1)
          case (Inl x)
          with run p1 have "w' = w2" by simp
          with t1 t2 show ?thesis
            by (simp add: cl stops_append handles_append submissions_append rounds_quiet)
        next
          case (Inr u)
          with run p1 have p2: "poll_until e c False [jobid] w2 = Some (r, w')" by simp
          from poll_until_trace[OF p2] obtain b where
            "trace w' = trace w2 @ rounds [jobid] True b
                  @ [Polled [jobid] (case r of Inl x \<Rightarrow> Inl x | Inr u \<Rightarrow> Inr False)]"
            by auto
          with t1 t2 show ?thesis
            by (simp add: cl stops_append handles_append submissions_append rounds_quiet)
        qed
      qed
    qed
  qed
qed

section \<open>The orchestrator\<close>

lemma main_started:
  assumes "load_config e config_file = Inr config"
    and "getitem2 config ''algorithm'' ''num_cores'' = Inr (PyStr ''messaging'')"
    and "getitem2 config ''distributed'' ''cluster_platform'' = Inr cp"
    and "globals_lookup e cp = Inr c"
  shows "main e config_file fc_dir run_info_yaml w =
     (case start_workers e c config config_file (print ''Starting cluster workers'' w) of
        None \<Rightarrow> None
      | Some (Inl x, w1) \<Rightarrow> Some (Inl x, w1)
      | Some (Inr jobids, w1) \<Rightarrow>
          try_finally
            (run_analysis e config_file fc_dir run_info_yaml c config
               (print ''Running analysis'' w1))
            (\<lambda>w2. stop_workers c jobids (print ''Cleaning up cluster workers'' w2)))"
  by (simp add: main_def assms)

lemma try_finally_stop_workers:
  "try_finally (Some (r, w2)) (\<lambda>w. stop_workers c jobids (f w))
     = Some (r, snd (stop_workers c jobids (f w2)))"
  using stop_workers_returns[of c jobids "f w2"]
  by (cases "stop_workers c jobids (f w2)") (simp add: try_finally_def)

lemma main_cleanup:
  assumes "load_config e config_file = Inr config"
    and "getitem2 config ''algorithm'' ''num_cores'' = Inr (PyStr ''messaging'')"
    and "getitem2 config ''distributed'' ''cluster_platform'' = Inr cp"
    and "globals_lookup e cp = Inr c"
    and "start_workers e c config config_file (print ''Starting cluster workers'' w)
           = Some (Inr jobids, w1)"
    and "run_analysis e config_file fc_dir run_info_yaml c config (print ''Running analysis'' w1)
           = Some (r, w2)"
  shows "main e config_file fc_dir run_info_yaml w =
           Some (r, snd (stop_workers c jobids (print ''Cleaning up cluster workers'' w2)))"
  by (simp add: main_started[OF assms(1-4)] assms(5,6) try_finally_stop_workers)

section \<open>Evaluating the sample installation\<close>

lemmas sample_defs =
  sample_env_def sample_cluster_def sample_config_def sample_world_def

lemmas model_defs =
  getitem2_def py_split_def py_range_def is_space_def optional_arg_def globals_lookup_def
  print_def call_sleep_def call_submit_job_def call_are_running_def call_stop_job_def
  try_finally_def

lemma sample_lookups:
  "load_config (sample_env bad cores n) f = Inr (sample_config cores n)"
  "getitem2 (sample_config cores n) ''algorithm'' ''num_cores'' = Inr cores"
  "getitem2 (sample_config cores n) ''distributed'' ''cluster_platform'' = Inr (PyStr ''lsf'')"
  "globals_lookup (sample_env bad cores n) (PyStr ''lsf'') = Inr (sample_cluster bad)"
  "getitem2 (sample_config cores n) ''distributed'' ''platform_args'' = Inr (PyStr ''-q  hours'')"
  "py_split (PyStr ''-q  hours'') = Inr [''-q'', ''hours'']"
  "getitem2 (sample_config cores n) ''analysis'' ''worker_program'' = Inr (PyStr ''worker.py'')"
  "getitem2 (sample_config cores n) ''analysis'' ''process_program'' = Inr (PyStr ''analysis.py'')"
  "getitem2 (sample_config cores n) ''distributed'' ''num_workers'' = Inr (PyInt n)"
  by (simp_all add: sample_defs model_defs)

lemma sample_start_workers:
  assumes "2 \<le> bad"
  shows "start_workers (sample_env bad cores 2) (sample_cluster bad) (sample_config cores 2)
     ''cfg.yaml'' (print ''Starting cluster workers'' (sample_world 0))
   = Some (Inr [0, 1],
       \<lparr>sched = (2, 5),
        trace = [Printed ''Starting cluster workers'',
                 Submitted [''-q'', ''hours''] [PyStr ''worker.py'', PyStr ''cfg.yaml''] (Inr 0),
                 Submitted [''-q'', ''hours''] [PyStr ''worker.py'', PyStr ''cfg.yaml''] (Inr 1),
                 Polled [0, 1] (Inr False), Slept 5, Polled [0, 1] (Inr True)]\<rparr>)"
  using assms
  by (simp add: start_workers_def sample_lookups numeral_2_eq_2 poll_until.simps
        sample_env_def sample_cluster_def sample_world_def print_def call_sleep_def
        call_submit_job_def call_are_running_def py_range_def)

section \<open>Cleanup\<close>




text \<open>
  C3. When \<^verbatim>\<open>run_analysis\<close> raised \<open>x\<close> in a run whose pool has the handles \<open>jobids\<close>,
  \<^verbatim>\<open>main\<close> calls \<^verbatim>\<open>stop_job\<close> on every one of them, whatever the earlier calls
  returned or raised (\<open>rs\<close> are the outcomes, one per handle, unconstrained), and then
  raises that same \<open>x\<close>.
\<close>

theorem cleanup_errors_keep_driver_error:
  assumes "load_config e config_file = Inr config"
    and "getitem2 config ''algorithm'' ''num_cores'' = Inr (PyStr ''messaging'')"
    and "getitem2 config ''distributed'' ''cluster_platform'' = Inr cp"
    and "globals_lookup e cp = Inr c"
    and "start_workers e c config config_file (print ''Starting cluster workers'' w)
           = Some (Inr jobids, w1)"
    and "run_analysis e config_file fc_dir run_info_yaml c config
           (print ''Running analysis'' w1) = Some (Inl x, w2)"
  shows "\<exists>w3 rs. main e config_file fc_dir run_info_yaml w = Some (Inl x, w3)
            \<and> length rs = length jobids
            \<and> trace w3 = trace w2 @ [Printed ''Cleaning up cluster workers'']
                           @ map (\<lambda>(j, r). Stopped j r) (zip jobids rs)"
proof -
  define w3 where "w3 = snd (stop_workers c jobids (print ''Cleaning up cluster workers'' w2))"
  have "main e config_file fc_dir run_info_yaml w = Some (Inl x, w3)"
    unfolding w3_def by (rule main_cleanup[OF assms])
  moreover from stop_workers_trace[of jobids c "print ''Cleaning up cluster workers'' w2"]
  obtain rs where "length rs = length jobids"
    and "trace w3 = trace w2 @ [Printed ''Cleaning up cluster workers'']
               @ map (\<lambda>(j, r). Stopped j r) (zip jobids rs)"
    by (auto simp: w3_def print_def)
  ultimately show ?thesis by blast
qed

theorem cleanup_errors_keep_driver_error_witness:
  "\<exists>w3. main (sample_env 2 (PyStr ''messaging'') 2) ''cfg.yaml'' ''fc'' None (sample_world 0)
           = Some (Inl (OtherError ''SubmissionError''), w3)
      \<and> stops (trace w3) = [0, 1]"
proof -
  have sw: "start_workers (sample_env 2 (PyStr ''messaging'') 2) (sample_cluster 2)
      (sample_config (PyStr ''messaging'') 2) ''cfg.yaml''
      (print ''Starting cluster workers'' (sample_world 0))
    = Some (Inr [0, 1],
       \<lparr>sched = (2, 5),
        trace = [Printed ''Starting cluster workers'',
                 Submitted [''-q'', ''hours''] [PyStr ''worker.py'', PyStr ''cfg.yaml''] (Inr 0),
                 Submitted [''-q'', ''hours''] [PyStr ''worker.py'', PyStr ''cfg.yaml''] (Inr 1),
                 Polled [0, 1] (Inr False), Slept 5, Polled [0, 1] (Inr True)]\<rparr>)"
    by (rule sample_start_workers) simp
  have ra: "run_analysis (sample_env 2 (PyStr ''messaging'') 2) ''cfg.yaml'' ''fc'' None
      (sample_cluster 2) (sample_config (PyStr ''messaging'') 2)
      (print ''Running analysis''
       \<lparr>sched = (2, 5),
        trace = [Printed ''Starting cluster workers'',
                 Submitted [''-q'', ''hours''] [PyStr ''worker.py'', PyStr ''cfg.yaml''] (Inr 0),
                 Submitted [''-q'', ''hours''] [PyStr ''worker.py'', PyStr ''cfg.yaml''] (Inr 1),
                 Polled [0, 1] (Inr False), Slept 5, Polled [0, 1] (Inr True)]\<rparr>)
    = Some (Inl (OtherError ''SubmissionError''),
       \<lparr>sched = (2, 5),
        trace = [Printed ''Starting cluster workers'',
                 Submitted [''-q'', ''hours''] [PyStr ''worker.py'', PyStr ''cfg.yaml''] (Inr 0),
                 Submitted [''-q'', ''hours''] [PyStr ''worker.py'', PyStr ''cfg.yaml''] (Inr 1),
                 Polled [0, 1] (Inr False), Slept 5, Polled [0, 1] (Inr True),
                 Printed ''Running analysis'',
                 Submitted [''-q'', ''hours'']
                   [PyStr ''analysis.py'', PyStr ''cfg.yaml'', PyStr ''fc'']
                   (Inl (OtherError ''SubmissionError''))]\<rparr>)"
    by (simp add: run_analysis_def sample_lookups optional_arg_def
          sample_cluster_def print_def call_submit_job_def)
  from cleanup_errors_keep_driver_error[OF sample_lookups(1-4) sw ra]
  obtain w3 rs where m: "main (sample_env 2 (PyStr ''messaging'') 2) ''cfg.yaml'' ''fc'' None
        (sample_world 0) = Some (Inl (OtherError ''SubmissionError''), w3)"
    and rs: "length rs = length [0 :: nat, 1]"
    and t: "trace w3 =
        [Printed ''Starting cluster workers'',
         Submitted [''-q'', ''hours''] [PyStr ''worker.py'', PyStr ''cfg.yaml''] (Inr 0),
         Submitted [''-q'', ''hours''] [PyStr ''worker.py'', PyStr ''cfg.yaml''] (Inr 1),
         Polled [0, 1] (Inr False), Slept 5, Polled [0, 1] (Inr True),
         Printed ''Running analysis'',
         Submitted [''-q'', ''hours'']
           [PyStr ''analysis.py'', PyStr ''cfg.yaml'', PyStr ''fc'']
           (Inl (OtherError ''SubmissionError''))]
        @ [Printed ''Cleaning up cluster workers'']
        @ map (\<lambda>(j, r). Stopped j r) (zip [0, 1] rs)"
    by auto
  from rs have "stops (map (\<lambda>(j, r). Stopped j r) (zip [0 :: nat, 1] rs)) = [0, 1]"
    by (rule stopped_events(1))
  with t have "stops (trace w3) = [0, 1]" by (simp add: stops_append)
  with m show ?thesis by blast
qed

text \<open>
  C6. \<^verbatim>\<open>stop_workers\<close> never raises, whatever \<^verbatim>\<open>stop_job\<close> does: called twice on the
  same handles, both calls return normally, and each of them presents every handle to
  \<^verbatim>\<open>stop_job\<close>.
\<close>

theorem stop_workers_twice:
  "fst (stop_workers c jobids w) = Inr ()
   \<and> fst (stop_workers c jobids (snd (stop_workers c jobids w))) = Inr ()
   \<and> stops (trace (snd (stop_workers c jobids (snd (stop_workers c jobids w)))))
       = stops (trace w) @ jobids @ jobids"
proof -
  have s: "stops (trace (snd (stop_workers c jobids w'))) = stops (trace w') @ jobids" for w'
    using stop_workers_trace[of jobids c w']
    by (auto simp: stops_append stopped_events)
  show ?thesis by (simp add: stop_workers_returns s)
qed

theorem stop_workers_twice_witness:
  "fst (stop_workers (sample_cluster 7) [0, 1]
          (snd (stop_workers (sample_cluster 7) [0, 1] (sample_world 0)))) = Inr ()
   \<and> trace (snd (stop_workers (sample_cluster 7) [0, 1]
                 (snd (stop_workers (sample_cluster 7) [0, 1] (sample_world 0)))))
       = [Stopped 0 (Inl (OtherError ''CancellationError'')), Stopped 1 (Inr ()),
          Stopped 0 (Inl (OtherError ''CancellationError'')), Stopped 1 (Inr ())]"
proof -
  have "trace (snd (stop_workers (sample_cluster 7) [0, 1]
                 (snd (stop_workers (sample_cluster 7) [0, 1] (sample_world 0)))))
       = [Stopped 0 (Inl (OtherError ''CancellationError'')), Stopped 1 (Inr ()),
          Stopped 0 (Inl (OtherError ''CancellationError'')), Stopped 1 (Inr ())]"
    by (simp add: sample_cluster_def sample_world_def call_stop_job_def)
  with stop_workers_twice[of "sample_cluster 7" "[0, 1]" "sample_world 0"]
  show ?thesis by simp
qed

section \<open>A pool that fails to start\<close>

lemma main_pool_failed:
  assumes "load_config e config_file = Inr config"
    and "getitem2 config ''algorithm'' ''num_cores'' = Inr (PyStr ''messaging'')"
    and "getitem2 config ''distributed'' ''cluster_platform'' = Inr cp"
    and "globals_lookup e cp = Inr c"
    and "start_workers e c config config_file (print ''Starting cluster workers'' w)
           = Some (Inl x, w1)"
  shows "main e config_file fc_dir run_info_yaml w = Some (Inl x, w1)"
  by (simp add: main_started[OF assms(1-4)] assms(5))

text \<open>
  C2, as the specification states it, at its own scenario: two workers are configured and
  the second submission is rejected. \<^verbatim>\<open>main\<close> raises the submission error, job 0 has
  been submitted, and no call of \<^verbatim>\<open>stop_job\<close> was made: not one cancellation, but none.
\<close>

theorem partial_pool_left_running:
  "main (sample_env 1 (PyStr ''messaging'') 2) ''cfg.yaml'' ''fc'' None (sample_world 0)
     = Some (Inl (OtherError ''SubmissionError''),
         \<lparr>sched = (1, 0),
          trace = [Printed ''Starting cluster workers'',
                   Submitted [''-q'', ''hours''] [PyStr ''worker.py'', PyStr ''cfg.yaml''] (Inr 0),
                   Submitted [''-q'', ''hours''] [PyStr ''worker.py'', PyStr ''cfg.yaml'']
                     (Inl (OtherError ''SubmissionError''))]\<rparr>)
   \<and> stops [Printed ''Starting cluster workers'',
             Submitted [''-q'', ''hours''] [PyStr ''worker.py'', PyStr ''cfg.yaml''] (Inr (0 :: nat)),
             Submitted [''-q'', ''hours''] [PyStr ''worker.py'', PyStr ''cfg.yaml'']
               (Inl (OtherError ''SubmissionError''))] = []"
  by (simp add: main_def start_workers_def sample_lookups numeral_2_eq_2
        sample_cluster_def sample_world_def print_def call_submit_job_def py_range_def)

text \<open>
  C2, amended. If a worker submission raises \<open>x\<close> partway through the pool start, then
  \<^verbatim>\<open>start_workers\<close> ends there, \<^verbatim>\<open>main\<close> raises \<open>x\<close> (the script exits with
  status 1), and \<^verbatim>\<open>main\<close> makes no call of \<^verbatim>\<open>stop_job\<close>: the jobs \<open>js\<close> submitted
  before the failure are left as they are. Cleanup covers a pool that
  \<^verbatim>\<open>start_workers\<close> returned, not one whose start failed.
\<close>

theorem failed_pool_start_stops_nothing:
  assumes "load_config e config_file = Inr config"
    and "getitem2 config ''algorithm'' ''num_cores'' = Inr (PyStr ''messaging'')"
    and "getitem2 config ''distributed'' ''cluster_platform'' = Inr cp"
    and "globals_lookup e cp = Inr c"
    and cfg: "getitem2 config ''distributed'' ''platform_args'' = Inr pa"
      "py_split pa = Inr args"
      "getitem2 config ''analysis'' ''worker_program'' = Inr wp"
      "getitem2 config ''distributed'' ''num_workers'' = Inr nw"
      "py_range nw = Inr n"
    and sub: "submit_all c args [wp, PyStr config_file] n (print ''Starting cluster workers'' w)
               = (Inl x, w1)"
  shows "main e config_file fc_dir run_info_yaml w = Some (Inl x, w1)
       \<and> script_exit_status (Inl x) = 1
       \<and> stops (trace w1) = stops (trace w)
       \<and> (\<exists>js. length js < n
              \<and> trace w1 = trace w @ [Printed ''Starting cluster workers'']
                  @ map (\<lambda>j. Submitted args [wp, PyStr config_file] (Inr j)) js
                  @ [Submitted args [wp, PyStr config_file] (Inl x)])"
proof -
  have "start_workers e c config config_file (print ''Starting cluster workers'' w)
          = Some (Inl x, w1)"
    by (simp add: start_workers_unfold[OF cfg] sub)
  from main_pool_failed[OF assms(1-4) this]
  have m: "main e config_file fc_dir run_info_yaml w = Some (Inl x, w1)" .
  from submit_all_fail[OF sub] obtain js where js: "length js < n"
    "trace w1 = trace w @ [Printed ''Starting cluster workers'']
       @ map (\<lambda>j. Submitted args [wp, PyStr config_file] (Inr j)) js
       @ [Submitted args [wp, PyStr config_file] (Inl x)]"
    by (auto simp: print_def)
  then have "stops (trace w1) = stops (trace w)"
    by (simp add: stops_append submitted_events)
  with m js show ?thesis by (auto simp: script_exit_status_def)
qed

theorem failed_pool_start_stops_nothing_witness:
  "main (sample_env 1 (PyStr ''messaging'') 2) ''cfg.yaml'' ''fc'' None (sample_world 0)
     = Some (Inl (OtherError ''SubmissionError''),
         \<lparr>sched = (1, 0),
          trace = [Printed ''Starting cluster workers'',
                   Submitted [''-q'', ''hours''] [PyStr ''worker.py'', PyStr ''cfg.yaml''] (Inr 0),
                   Submitted [''-q'', ''hours''] [PyStr ''worker.py'', PyStr ''cfg.yaml'']
                     (Inl (OtherError ''SubmissionError''))]\<rparr>)
   \<and> script_exit_status (Inl (OtherError ''SubmissionError'')) = 1"
proof -
  have r: "py_range (PyInt 2) = Inr 2" by (simp add: py_range_def)
  have sub: "submit_all (sample_cluster 1) [''-q'', ''hours'']
       [PyStr ''worker.py'', PyStr ''cfg.yaml''] 2
       (print ''Starting cluster workers'' (sample_world 0))
     = (Inl (OtherError ''SubmissionError''),
         \<lparr>sched = (1, 0),
          trace = [Printed ''Starting cluster workers'',
                   Submitted [''-q'', ''hours''] [PyStr ''worker.py'', PyStr ''cfg.yaml''] (Inr 0),
                   Submitted [''-q'', ''hours''] [PyStr ''worker.py'', PyStr ''cfg.yaml'']
                     (Inl (OtherError ''SubmissionError''))]\<rparr>)"
    by (simp add: numeral_2_eq_2 sample_cluster_def sample_world_def print_def
          call_submit_job_def)
  from failed_pool_start_stops_nothing[OF sample_lookups(1-4) sample_lookups(5-7)
      sample_lookups(9) r sub]
  show ?thesis by simp
qed

section \<open>The precondition of the orchestrator\<close>

lemma main_missing_num_cores:
  assumes "load_config e config_file = Inr config"
    and "getitem2 config ''algorithm'' ''num_cores'' = Inl x"
  shows "main e config_file fc_dir run_info_yaml w = Some (Inl x, w)"
  by (simp add: main_def assms)

text \<open>
  C9. When the configuration holds a value for \<^verbatim>\<open>algorithm.num_cores\<close> that is not the
  string \<^verbatim>\<open>"messaging"\<close>, \<^verbatim>\<open>main\<close> raises the assertion error and the world is what
  it was: nothing was looked up in the globals, and no job was submitted, polled or
  stopped.
\<close>

theorem main_asserts_messaging:
  assumes "load_config e config_file = Inr config"
    and "getitem2 config ''algorithm'' ''num_cores'' = Inr nc"
    and "nc \<noteq> PyStr ''messaging''"
  shows "main e config_file fc_dir run_info_yaml w =
           Some (Inl (AssertionError ''Designed for use with messaging parallelization''), w)"
  using assms(3) unfolding main_def
  by (simp add: assms(1,2))

theorem main_asserts_messaging_witness:
  "main (sample_env 7 (PyInt 8) 2) ''cfg.yaml'' ''fc'' None (sample_world 0) =
     Some (Inl (AssertionError ''Designed for use with messaging parallelization''),
           sample_world 0)"
proof -
  have "PyInt 8 \<noteq> PyStr ''messaging''" by simp
  from main_asserts_messaging[OF sample_lookups(1,2) this] show ?thesis .
qed

section \<open>The pool start\<close>

lemma start_workers_returns:
  assumes "getitem2 config ''distributed'' ''platform_args'' = Inr pa"
    and "py_split pa = Inr args"
    and "getitem2 config ''analysis'' ''worker_program'' = Inr wp"
    and "getitem2 config ''distributed'' ''num_workers'' = Inr nw"
    and "py_range nw = Inr n"
    and sub: "submit_all c args [wp, PyStr config_file] n w = (Inr jobids, w1)"
    and st: "settles e c True jobids k (sched w1)"
  shows "start_workers e c config config_file w =
           Some (Inr jobids,
                 \<lparr>sched = after_polls e c jobids k (sched w1),
                  trace = trace w1 @ rounds jobids False k @ [Polled jobids (Inr True)]\<rparr>)"
  using poll_until_returns[OF st]
  by (simp add: start_workers_unfold[OF assms(1-5)] sub)

text \<open>
  C4. With \<open>N\<close> workers configured: whenever \<^verbatim>\<open>start_workers\<close> returns a list of
  handles, the list has length \<open>N\<close> and is the list of the handles that the \<open>N\<close>
  submissions returned, in order; every call of \<^verbatim>\<open>are_running\<close> was made on that whole
  list, all but the last returned false and were followed by a sleep of 5, and the last one
  returned true. And it does return: if the \<open>N\<close> submissions succeed with handles
  \<open>jobids\<close> and \<^verbatim>\<open>are_running\<close> on \<open>jobids\<close> is first true at its call number \<open>k\<close>
  (counting from 0), then \<^verbatim>\<open>start_workers\<close> returns \<open>jobids\<close> after exactly those calls.
\<close>

theorem start_workers_full_pool:
  assumes nw: "getitem2 config ''distributed'' ''num_workers'' = Inr (PyInt (int N))"
  shows "(\<forall>jobids w'. start_workers e c config config_file w = Some (Inr jobids, w') \<longrightarrow>
            length jobids = N
          \<and> (\<exists>args wp k. trace w' =
                trace w @ map (\<lambda>j. Submitted args [wp, PyStr config_file] (Inr j)) jobids
                  @ rounds jobids False k @ [Polled jobids (Inr True)]))
       \<and> (\<forall>pa args wp jobids w1 k.
            getitem2 config ''distributed'' ''platform_args'' = Inr pa
          \<and> py_split pa = Inr args
          \<and> getitem2 config ''analysis'' ''worker_program'' = Inr wp
          \<and> submit_all c args [wp, PyStr config_file] N w = (Inr jobids, w1)
          \<and> settles e c True jobids k (sched w1) \<longrightarrow>
            start_workers e c config config_file w =
              Some (Inr jobids,
                    \<lparr>sched = after_polls e c jobids k (sched w1),
                     trace = trace w1 @ rounds jobids False k @ [Polled jobids (Inr True)]\<rparr>))"
proof (intro conjI allI impI)
  fix jobids w'
  assume sw: "start_workers e c config config_file w = Some (Inr jobids, w')"
  from start_workers_ok[OF sw] nw obtain args wp n w1 where
    n: "py_range (PyInt (int N)) = Inr n"
    and sub: "submit_all c args [wp, PyStr config_file] n w = (Inr jobids, w1)"
    by auto
  from n have "n = N" by (simp add: py_range_def)
  with submit_all_ok[OF sub] show "length jobids = N" by simp
  from start_workers_trace[OF sw]
  show "\<exists>args wp k. trace w' =
          trace w @ map (\<lambda>j. Submitted args [wp, PyStr config_file] (Inr j)) jobids
            @ rounds jobids False k @ [Polled jobids (Inr True)]"
    by blast
next
  fix pa args wp jobids w1 k
  assume a: "getitem2 config ''distributed'' ''platform_args'' = Inr pa
          \<and> py_split pa = Inr args
          \<and> getitem2 config ''analysis'' ''worker_program'' = Inr wp
          \<and> submit_all c args [wp, PyStr config_file] N w = (Inr jobids, w1)
          \<and> settles e c True jobids k (sched w1)"
  have n: "py_range (PyInt (int N)) = Inr N" by (simp add: py_range_def)
  from a have a1: "getitem2 config ''distributed'' ''platform_args'' = Inr pa"
    and a2: "py_split pa = Inr args"
    and a3: "getitem2 config ''analysis'' ''worker_program'' = Inr wp"
    and a4: "submit_all c args [wp, PyStr config_file] N w = (Inr jobids, w1)"
    and a5: "settles e c True jobids k (sched w1)"
    by simp_all
  show "start_workers e c config config_file w =
      Some (Inr jobids,
            \<lparr>sched = after_polls e c jobids k (sched w1),
             trace = trace w1 @ rounds jobids False k @ [Polled jobids (Inr True)]\<rparr>)"
    by (rule start_workers_returns[OF a1 a2 a3 nw n a4 a5])
qed

theorem start_workers_full_pool_witness:
  "start_workers (sample_env 7 (PyStr ''messaging'') 2) (sample_cluster 7)
     (sample_config (PyStr ''messaging'') 2) ''cfg.yaml'' (sample_world 0)
   = Some (Inr [0, 1],
       \<lparr>sched = (2, 5),
        trace = [Submitted [''-q'', ''hours''] [PyStr ''worker.py'', PyStr ''cfg.yaml''] (Inr 0),
                 Submitted [''-q'', ''hours''] [PyStr ''worker.py'', PyStr ''cfg.yaml''] (Inr 1),
                 Polled [0, 1] (Inr False), Slept 5, Polled [0, 1] (Inr True)]\<rparr>)
   \<and> length [0 :: nat, 1] = 2"
proof -
  let ?e = "sample_env 7 (PyStr ''messaging'') 2"
  let ?w1 = "\<lparr>sched = (2 :: nat, 0 :: nat),
       trace = [Submitted [''-q'', ''hours''] [PyStr ''worker.py'', PyStr ''cfg.yaml''] (Inr 0),
                Submitted [''-q'', ''hours''] [PyStr ''worker.py'', PyStr ''cfg.yaml'']
                  (Inr (1 :: nat))]\<rparr>"
  have nw: "getitem2 (sample_config (PyStr ''messaging'') 2) ''distributed'' ''num_workers''
              = Inr (PyInt (int 2))"
    by (simp add: sample_lookups)
  have sub: "submit_all (sample_cluster 7) [''-q'', ''hours'']
       [PyStr ''worker.py'', PyStr ''cfg.yaml''] 2 (sample_world 0) = (Inr [0, 1], ?w1)"
    by (simp add: numeral_2_eq_2 sample_cluster_def sample_world_def call_submit_job_def)
  have st: "settles ?e (sample_cluster 7) True [0, 1] 1 (sched ?w1)"
    by (simp add: sample_env_def sample_cluster_def)
  from start_workers_full_pool[OF nw, where e = ?e and c = "sample_cluster 7"
      and config_file = "''cfg.yaml''" and w = "sample_world 0"]
    sample_lookups(5)[of "PyStr ''messaging''" 2] sample_lookups(6)
    sample_lookups(7)[of "PyStr ''messaging''" 2] sub st
  have "start_workers ?e (sample_cluster 7) (sample_config (PyStr ''messaging'') 2)
          ''cfg.yaml'' (sample_world 0)
        = Some (Inr [0, 1],
            \<lparr>sched = after_polls ?e (sample_cluster 7) [0, 1] 1 (sched ?w1),
             trace = trace ?w1 @ rounds [0, 1] False 1 @ [Polled [0, 1] (Inr True)]\<rparr>)"
    by blast
  then show ?thesis by (simp add: rounds_def sample_env_def sample_cluster_def)
qed

text \<open>
  C7. \<^verbatim>\<open>start_workers\<close> has no timeout. Let the submissions succeed with handles
  \<open>jobids\<close>, and let \<^verbatim>\<open>are_running\<close> on \<open>jobids\<close> never return true from then on
  (\<open>I\<close> holds of the scheduler state after the submissions, is kept by a call followed by
  the sleep, and excludes the answer true). Then \<^verbatim>\<open>start_workers\<close> never returns a
  list of handles; and if the answer is false at every call, it neither returns nor raises:
  its value is \<open>None\<close>, the loop that never ends.
\<close>

theorem start_workers_no_timeout:
  assumes "getitem2 config ''distributed'' ''platform_args'' = Inr pa"
    and "py_split pa = Inr args"
    and "getitem2 config ''analysis'' ''worker_program'' = Inr wp"
    and "getitem2 config ''distributed'' ''num_workers'' = Inr nw"
    and "py_range nw = Inr n"
    and sub: "submit_all c args [wp, PyStr config_file] n w = (Inr jobids, w1)"
    and inv: "I (sched w1)"
    and step: "\<forall>s. I s \<longrightarrow> fst (are_running c jobids s) \<noteq> Inr True
                       \<and> I (sleep e 5 (snd (are_running c jobids s)))"
  shows "(\<forall>js w'. start_workers e c config config_file w \<noteq> Some (Inr js, w'))
       \<and> ((\<forall>s. I s \<longrightarrow> fst (are_running c jobids s) = Inr False) \<longrightarrow>
            start_workers e c config config_file w = None)"
proof (intro conjI allI impI)
  fix js w'
  have "poll_until e c True jobids w1 \<noteq> Some (Inr (), w')"
    using inv step by (intro poll_until_no_answer[where I = I]) simp_all
  then show "start_workers e c config config_file w \<noteq> Some (Inr js, w')"
    by (auto simp: start_workers_unfold[OF assms(1-5)] sub split: option.splits sum.splits)
next
  assume "\<forall>s. I s \<longrightarrow> fst (are_running c jobids s) = Inr False"
  with inv step have "poll_until e c True jobids w1 = None"
    by (intro poll_until_never[where I = I]) simp_all
  then show "start_workers e c config config_file w = None"
    by (simp add: start_workers_unfold[OF assms(1-5)] sub)
qed

theorem start_workers_no_timeout_witness:
  "start_workers (sample_env 7 (PyStr ''messaging'') 2) (sample_cluster 7)
     (sample_config (PyStr ''messaging'') 2) ''cfg.yaml'' (sample_world 15) = None"
proof -
  let ?e = "sample_env 7 (PyStr ''messaging'') 2"
  let ?w1 = "\<lparr>sched = (2 :: nat, 15 :: nat),
       trace = [Submitted [''-q'', ''hours''] [PyStr ''worker.py'', PyStr ''cfg.yaml''] (Inr 0),
                Submitted [''-q'', ''hours''] [PyStr ''worker.py'', PyStr ''cfg.yaml'']
                  (Inr (1 :: nat))]\<rparr>"
  let ?I = "\<lambda>(next :: nat, t :: nat). 15 \<le> t"
  have r: "py_range (PyInt 2) = Inr 2" by (simp add: py_range_def)
  have sub: "submit_all (sample_cluster 7) [''-q'', ''hours'']
       [PyStr ''worker.py'', PyStr ''cfg.yaml''] 2 (sample_world 15) = (Inr [0, 1], ?w1)"
    by (simp add: numeral_2_eq_2 sample_cluster_def sample_world_def call_submit_job_def)
  have inv: "?I (sched ?w1)" by simp
  have step: "\<forall>s. ?I s \<longrightarrow>
       fst (are_running (sample_cluster 7) [0, 1] s) \<noteq> Inr True
     \<and> ?I (sleep ?e 5 (snd (are_running (sample_cluster 7) [0, 1] s)))"
    by (auto simp add: sample_env_def sample_cluster_def)
  have never: "\<forall>s. ?I s \<longrightarrow> fst (are_running (sample_cluster 7) [0, 1] s) = Inr False"
    by (auto simp add: sample_cluster_def)
  from start_workers_no_timeout[OF sample_lookups(5-7) sample_lookups(9) r sub inv step] never
  show ?thesis by blast
qed

text \<open>
  C8. With a worker count of 0 (or less) and \<^verbatim>\<open>are_running\<close> true on the empty list,
  \<^verbatim>\<open>start_workers\<close> returns the empty list at once: the only thing it did is that one
  call of \<^verbatim>\<open>are_running\<close>; no job was submitted and there was no sleep.
\<close>

theorem start_workers_empty_pool:
  assumes "getitem2 config ''distributed'' ''platform_args'' = Inr pa"
    and "py_split pa = Inr args"
    and "getitem2 config ''analysis'' ''worker_program'' = Inr wp"
    and "getitem2 config ''distributed'' ''num_workers'' = Inr (PyInt n)"
    and "n \<le> 0"
    and ar: "are_running c [] (sched w) = (Inr True, s')"
  shows "start_workers e c config config_file w =
           Some (Inr [], \<lparr>sched = s', trace = trace w @ [Polled [] (Inr True)]\<rparr>)"
proof -
  from \<open>n \<le> 0\<close> have r: "py_range (PyInt n) = Inr 0" by (simp add: py_range_def)
  have "poll_until e c True [] w =
          Some (Inr (), \<lparr>sched = s', trace = trace w @ [Polled [] (Inr True)]\<rparr>)"
    by (subst poll_until.simps) (simp add: call_are_running_def ar)
  then show ?thesis by (simp add: start_workers_unfold[OF assms(1-4) r])
qed

theorem start_workers_empty_pool_witness:
  "start_workers (sample_env 7 (PyStr ''messaging'') 0) (sample_cluster 7)
     (sample_config (PyStr ''messaging'') 0) ''cfg.yaml'' (sample_world 5)
   = Some (Inr [], \<lparr>sched = (0, 5), trace = [Polled [] (Inr True)]\<rparr>)"
proof -
  have ar: "are_running (sample_cluster 7) [] (sched (sample_world 5)) = (Inr True, (0, 5))"
    by (simp add: sample_cluster_def sample_world_def)
  have "(0 :: int) \<le> 0" by simp
  from start_workers_empty_pool[OF sample_lookups(5-7) sample_lookups(9) this ar]
  show ?thesis by (simp add: sample_world_def)
qed

section \<open>The driver job\<close>

lemma run_analysis_ok:
  assumes "run_analysis e config_file fc_dir run_info_yaml c config w = Some (Inr (), w')"
  shows "\<exists>pa args pp jobid w1 w2.
           getitem2 config ''distributed'' ''platform_args'' = Inr pa
         \<and> py_split pa = Inr args
         \<and> getitem2 config ''analysis'' ''process_program'' = Inr pp
         \<and> call_submit_job c args
              ([pp, PyStr config_file, PyStr fc_dir] @ optional_arg run_info_yaml) w
             = (Inr jobid, w1)
         \<and> poll_until e c True [jobid] w1 = Some (Inr (), w2)
         \<and> poll_until e c False [jobid] w2 = Some (Inr (), w')"
  using assms
  by (auto simp: run_analysis_def split: sum.splits prod.splits option.splits)

lemma run_analysis_returns:
  assumes "getitem2 config ''distributed'' ''platform_args'' = Inr pa"
    and "py_split pa = Inr args"
    and "getitem2 config ''analysis'' ''process_program'' = Inr pp"
    and sj: "call_submit_job c args
               ([pp, PyStr config_file, PyStr fc_dir] @ optional_arg run_info_yaml) w
              = (Inr jobid, w1)"
    and started: "settles e c True [jobid] a (sched w1)"
    and finished: "settles e c False [jobid] b (after_polls e c [jobid] a (sched w1))"
  shows "run_analysis e config_file fc_dir run_info_yaml c config w =
           Some (Inr (),
                 \<lparr>sched = after_polls e c [jobid] b (after_polls e c [jobid] a (sched w1)),
                  trace = trace w1 @ rounds [jobid] False a @ [Polled [jobid] (Inr True)]
                            @ rounds [jobid] True b @ [Polled [jobid] (Inr False)]\<rparr>)"
proof -
  define w2 where "w2 = \<lparr>sched = after_polls e c [jobid] a (sched w1),
      trace = trace w1 @ rounds [jobid] False a @ [Polled [jobid] (Inr True)]\<rparr>"
  from poll_until_returns[OF started]
  have p1: "poll_until e c True [jobid] w1 = Some (Inr (), w2)" by (simp add: w2_def)
  from finished have "settles e c False [jobid] b (sched w2)" by (simp add: w2_def)
  from poll_until_returns[OF this]
  have p2: "poll_until e c False [jobid] w2 =
      Some (Inr (),
            \<lparr>sched = after_polls e c [jobid] b (sched w2),
             trace = trace w2 @ rounds [jobid] True b @ [Polled [jobid] (Inr False)]\<rparr>)"
    by simp
  show ?thesis
    unfolding run_analysis_unfold[OF assms(1-3)] sj
    by (simp add: p1 p2) (simp add: w2_def)
qed

text \<open>
  C5. Every run of \<^verbatim>\<open>run_analysis\<close> that ends, in whatever way, made at most one call
  of \<^verbatim>\<open>submit_job\<close>. When it returns normally, what it did is exactly: one submission,
  which returned \<open>jobid\<close>; \<open>a\<close> calls of \<^verbatim>\<open>are_running([jobid])\<close> that returned false,
  each followed by a sleep of 5, and one that returned true; then \<open>b\<close> calls that returned
  true, each followed by a sleep of 5, and a last one that returned false. And it does
  return: if the submission succeeds, the job is first seen running at call \<open>a\<close> and after
  that first seen not running at call \<open>b\<close>, then \<^verbatim>\<open>run_analysis\<close> returns after
  exactly those calls.
\<close>

theorem run_analysis_one_driver:
  "(\<forall>r w'. run_analysis e config_file fc_dir run_info_yaml c config w = Some (r, w') \<longrightarrow>
      (\<exists>seg. trace w' = trace w @ seg \<and> submissions seg \<le> 1))
   \<and> (\<forall>w'. run_analysis e config_file fc_dir run_info_yaml c config w = Some (Inr (), w') \<longrightarrow>
      (\<exists>args pp jobid a b.
         trace w' = trace w
           @ [Submitted args ([pp, PyStr config_file, PyStr fc_dir] @ optional_arg run_info_yaml)
                (Inr jobid)]
           @ rounds [jobid] False a @ [Polled [jobid] (Inr True)]
           @ rounds [jobid] True b @ [Polled [jobid] (Inr False)]))
   \<and> (\<forall>pa args pp jobid w1 a b.
         getitem2 config ''distributed'' ''platform_args'' = Inr pa
       \<and> py_split pa = Inr args
       \<and> getitem2 config ''analysis'' ''process_program'' = Inr pp
       \<and> call_submit_job c args
            ([pp, PyStr config_file, PyStr fc_dir] @ optional_arg run_info_yaml) w
           = (Inr jobid, w1)
       \<and> settles e c True [jobid] a (sched w1)
       \<and> settles e c False [jobid] b (after_polls e c [jobid] a (sched w1)) \<longrightarrow>
         run_analysis e config_file fc_dir run_info_yaml c config w =
           Some (Inr (),
                 \<lparr>sched = after_polls e c [jobid] b (after_polls e c [jobid] a (sched w1)),
                  trace = trace w1 @ rounds [jobid] False a @ [Polled [jobid] (Inr True)]
                            @ rounds [jobid] True b @ [Polled [jobid] (Inr False)]\<rparr>))"
proof (intro conjI allI impI)
  fix r w'
  assume "run_analysis e config_file fc_dir run_info_yaml c config w = Some (r, w')"
  from run_analysis_events[OF this]
  show "\<exists>seg. trace w' = trace w @ seg \<and> submissions seg \<le> 1" by blast
next
  fix w'
  assume "run_analysis e config_file fc_dir run_info_yaml c config w = Some (Inr (), w')"
  from run_analysis_ok[OF this] obtain args pp jobid w1 w2 where
    sj: "call_submit_job c args
           ([pp, PyStr config_file, PyStr fc_dir] @ optional_arg run_info_yaml) w
          = (Inr jobid, w1)"
    and p1: "poll_until e c True [jobid] w1 = Some (Inr (), w2)"
    and p2: "poll_until e c False [jobid] w2 = Some (Inr (), w')"
    by blast
  from poll_until_trace[OF p1] obtain a where
    "trace w2 = trace w1 @ rounds [jobid] False a @ [Polled [jobid] (Inr True)]" by auto
  moreover from poll_until_trace[OF p2] obtain b where
    "trace w' = trace w2 @ rounds [jobid] True b @ [Polled [jobid] (Inr False)]" by auto
  ultimately have "trace w' = trace w
           @ [Submitted args ([pp, PyStr config_file, PyStr fc_dir] @ optional_arg run_info_yaml)
                (Inr jobid)]
           @ rounds [jobid] False a @ [Polled [jobid] (Inr True)]
           @ rounds [jobid] True b @ [Polled [jobid] (Inr False)]"
    using call_submit_job_trace[OF sj] by simp
  then show "\<exists>args pp jobid a b.
         trace w' = trace w
           @ [Submitted args ([pp, PyStr config_file, PyStr fc_dir] @ optional_arg run_info_yaml)
                (Inr jobid)]
           @ rounds [jobid] False a @ [Polled [jobid] (Inr True)]
           @ rounds [jobid] True b @ [Polled [jobid] (Inr False)]"
    by blast
next
  fix pa args pp jobid w1 a b
  assume h: "getitem2 config ''distributed'' ''platform_args'' = Inr pa
       \<and> py_split pa = Inr args
       \<and> getitem2 config ''analysis'' ''process_program'' = Inr pp
       \<and> call_submit_job c args
            ([pp, PyStr config_file, PyStr fc_dir] @ optional_arg run_info_yaml) w
           = (Inr jobid, w1)
       \<and> settles e c True [jobid] a (sched w1)
       \<and> settles e c False [jobid] b (after_polls e c [jobid] a (sched w1))"
  then have h1: "getitem2 config ''distributed'' ''platform_args'' = Inr pa"
    and h2: "py_split pa = Inr args"
    and h3: "getitem2 config ''analysis'' ''process_program'' = Inr pp"
    and h4: "call_submit_job c args
            ([pp, PyStr config_file, PyStr fc_dir] @ optional_arg run_info_yaml) w
           = (Inr jobid, w1)"
    and h5: "settles e c True [jobid] a (sched w1)"
    and h6: "settles e c False [jobid] b (after_polls e c [jobid] a (sched w1))"
    by simp_all
  show "run_analysis e config_file fc_dir run_info_yaml c config w =
           Some (Inr (),
                 \<lparr>sched = after_polls e c [jobid] b (after_polls e c [jobid] a (sched w1)),
                  trace = trace w1 @ rounds [jobid] False a @ [Polled [jobid] (Inr True)]
                            @ rounds [jobid] True b @ [Polled [jobid] (Inr False)]\<rparr>)"
    by (rule run_analysis_returns[OF h1 h2 h3 h4 h5 h6])
qed

theorem run_analysis_one_driver_witness:
  "run_analysis (sample_env 7 (PyStr ''messaging'') 2) ''cfg.yaml'' ''fc'' (Some ''run.yaml'')
     (sample_cluster 7) (sample_config (PyStr ''messaging'') 2) (sample_world 0)
   = Some (Inr (),
       \<lparr>sched = (1, 15),
        trace = [Submitted [''-q'', ''hours'']
                   [PyStr ''analysis.py'', PyStr ''cfg.yaml'', PyStr ''fc'', PyStr ''run.yaml'']
                   (Inr 0),
                 Polled [0] (Inr False), Slept 5, Polled [0] (Inr True),
                 Polled [0] (Inr True), Slept 5, Polled [0] (Inr True), Slept 5,
                 Polled [0] (Inr False)]\<rparr>)"
proof -
  let ?e = "sample_env 7 (PyStr ''messaging'') 2"
  let ?w1 = "\<lparr>sched = (1 :: nat, 0 :: nat),
       trace = [Submitted [''-q'', ''hours'']
                  [PyStr ''analysis.py'', PyStr ''cfg.yaml'', PyStr ''fc'', PyStr ''run.yaml'']
                  (Inr (0 :: nat))]\<rparr>"
  have sj: "call_submit_job (sample_cluster 7) [''-q'', ''hours'']
       ([PyStr ''analysis.py'', PyStr ''cfg.yaml'', PyStr ''fc''] @ optional_arg (Some ''run.yaml''))
       (sample_world 0) = (Inr 0, ?w1)"
    by (simp add: sample_cluster_def sample_world_def call_submit_job_def optional_arg_def)
  have started: "settles ?e (sample_cluster 7) True [0] 1 (sched ?w1)"
    by (simp add: sample_env_def sample_cluster_def)
  have finished: "settles ?e (sample_cluster 7) False [0] 2
       (after_polls ?e (sample_cluster 7) [0] 1 (sched ?w1))"
    by (simp add: sample_env_def sample_cluster_def numeral_2_eq_2)
  from run_analysis_one_driver[where e = ?e and c = "sample_cluster 7"
      and config = "sample_config (PyStr ''messaging'') 2" and config_file = "''cfg.yaml''"
      and fc_dir = "''fc''" and run_info_yaml = "Some ''run.yaml''" and w = "sample_world 0"]
    sample_lookups(5)[of "PyStr ''messaging''" 2] sample_lookups(6)
    sample_lookups(8)[of "PyStr ''messaging''" 2] sj started finished
  have "run_analysis ?e ''cfg.yaml'' ''fc'' (Some ''run.yaml'') (sample_cluster 7)
          (sample_config (PyStr ''messaging'') 2) (sample_world 0)
        = Some (Inr (),
            \<lparr>sched = after_polls ?e (sample_cluster 7) [0] 2
                       (after_polls ?e (sample_cluster 7) [0] 1 (sched ?w1)),
             trace = trace ?w1 @ rounds [0] False 1 @ [Polled [0] (Inr True)]
                       @ rounds [0] True 2 @ [Polled [0] (Inr False)]\<rparr>)"
    by blast
  then show ?thesis
    by (simp add: rounds_def sample_env_def sample_cluster_def numeral_2_eq_2)
qed

section \<open>The top-level pipeline\<close>

lemma path_join2_nonempty: "b \<noteq> [] \<Longrightarrow> path_join2 path b \<noteq> []"
  by (simp add: path_join2_def)

lemma get_run_yaml_found:
  assumes "get_run_yaml oe remote_info fc_dir config s = Inr (Some y)"
  shows "y \<noteq> [] \<and> path_exists oe y s"
proof -
  have d: "default_run_yaml config fc_dir = Inr p \<Longrightarrow> p \<noteq> []" for p
    by (auto simp: default_run_yaml_def path_join2_nonempty split: sum.splits)
  from assms show ?thesis
    by (auto simp: get_run_yaml_def dest: d split: option.splits sum.splits if_splits)
qed

lemma optional_arg_run_yaml:
  assumes "get_run_yaml oe remote_info fc_dir config s = Inr run_yaml"
  shows "optional_arg run_yaml = (case run_yaml of None \<Rightarrow> [] | Some y \<Rightarrow> [PyStr y])"
proof (cases run_yaml)
  case None
  then show ?thesis by (simp add: optional_arg_def)
next
  case (Some y)
  with get_run_yaml_found[of oe remote_info fc_dir config s y] assms
  show ?thesis by (simp add: optional_arg_def)
qed

lemma prepare_dir_invoked: "prepare_dir oe d w = (r, w1) \<Longrightarrow> invoked w1 = invoked w"
  by (auto simp: prepare_dir_def split: if_splits prod.splits)

lemma with_chdir_check_call:
  assumes "fst (chdir_enter oe d (os w1)) = Inr ()"
    and "select_prog config = Inr prog"
  shows "invoked (snd (with_chdir oe d (in_analysis_dir oe config config_file fc_dir run_yaml) w1))
           = invoked w1 @ [[prog, PyStr config_file, PyStr fc_dir] @ optional_arg run_yaml]"
  using assms
  by (cases "chdir_enter oe d (os w1)")
     (simp add: with_chdir_def in_analysis_dir_def call_check_call_def split: prod.splits)

lemma toplevel_run_analysis_invoked:
  assumes ry: "get_run_yaml oe remote_info fc_dir config (os w) = Inr run_yaml"
    and sec: "config ''analysis'' = Some sec"
    and dir: "remote_info ''directory'' = Some directory"
    and base: "as_path (case sec ''base_dir'' of None \<Rightarrow> PyStr (getcwd oe (os w)) | Some v \<Rightarrow> v)
                 = Inr base_dir"
    and mk: "prepare_dir oe (path_join2 base_dir (basename directory)) w = (Inr (), w1)"
    and cd: "fst (chdir_enter oe (path_join2 base_dir (basename directory)) (os w1)) = Inr ()"
    and prog: "select_prog config = Inr prog"
  shows "invoked (snd (toplevel_run_analysis oe fc_dir remote_info config config_file w))
           = invoked w @ [[prog, PyStr config_file, PyStr fc_dir]
                            @ (case run_yaml of None \<Rightarrow> [] | Some y \<Rightarrow> [PyStr y])]"
proof -
  let ?d = "path_join2 base_dir (basename directory)"
  let ?b = "with_chdir oe ?d (in_analysis_dir oe config config_file fc_dir run_yaml) w1"
  have "snd (toplevel_run_analysis oe fc_dir remote_info config config_file w) = snd ?b"
    by (simp add: toplevel_run_analysis_def ry sec dir base mk Let_def
          split: prod.splits sum.splits)
  with with_chdir_check_call[OF cd prog, of config_file fc_dir run_yaml]
    prepare_dir_invoked[OF mk] optional_arg_run_yaml[OF ry]
  show ?thesis by simp
qed

text \<open>
  C10. In a run of \<^verbatim>\<open>_run_analysis\<close> that reaches the body of the \<^verbatim>\<open>with\<close>
  statement (the lookups before it succeed, the analysis directory is there or is made, and
  the directory is entered), exactly one command is handed to \<^verbatim>\<open>subprocess.check_call\<close>.
  Its program is \<^verbatim>\<open>analysis.distributed_process_program\<close>, or
  \<^verbatim>\<open>distributed_nextgen_pipeline.py\<close> when that key is missing, if
  \<^verbatim>\<open>algorithm.num_cores\<close> is \<^verbatim>\<open>"messaging"\<close>, and \<^verbatim>\<open>analysis.process_program\<close>
  if it is anything else; the configuration file and the flowcell directory follow; and the
  run YAML is the last argument exactly when \<^verbatim>\<open>_get_run_yaml\<close> returned a path, which
  it does only for a path that exists.
\<close>

theorem toplevel_run_analysis_command:
  assumes ry: "get_run_yaml oe remote_info fc_dir config (os w) = Inr run_yaml"
    and sec: "config ''analysis'' = Some sec"
    and dir: "remote_info ''directory'' = Some directory"
    and base: "as_path (case sec ''base_dir'' of None \<Rightarrow> PyStr (getcwd oe (os w)) | Some v \<Rightarrow> v)
                 = Inr base_dir"
    and mk: "prepare_dir oe (path_join2 base_dir (basename directory)) w = (Inr (), w1)"
    and cd: "fst (chdir_enter oe (path_join2 base_dir (basename directory)) (os w1)) = Inr ()"
    and nc: "getitem2 config ''algorithm'' ''num_cores'' = Inr nc"
    and pp: "nc \<noteq> PyStr ''messaging'' \<longrightarrow> sec ''process_program'' = Some pp"
  shows "invoked (snd (toplevel_run_analysis oe fc_dir remote_info config config_file w))
           = invoked w @
             [[if nc = PyStr ''messaging''
               then (case sec ''distributed_process_program'' of
                       None \<Rightarrow> PyStr ''distributed_nextgen_pipeline.py''
                     | Some v \<Rightarrow> v)
               else pp,
               PyStr config_file, PyStr fc_dir]
              @ (case run_yaml of None \<Rightarrow> [] | Some y \<Rightarrow> [PyStr y])]
       \<and> (\<forall>y. run_yaml = Some y \<longrightarrow> path_exists oe y (os w))"
proof -
  have "select_prog config =
          Inr (if nc = PyStr ''messaging''
               then (case sec ''distributed_process_program'' of
                       None \<Rightarrow> PyStr ''distributed_nextgen_pipeline.py''
                     | Some v \<Rightarrow> v)
               else pp)"
  proof (cases "nc = PyStr ''messaging''")
    case True
    then show ?thesis by (simp add: select_prog_def nc sec split: option.splits)
  next
    case False
    with pp have "getitem2 config ''analysis'' ''process_program'' = Inr pp"
      by (simp add: getitem2_def sec)
    with False show ?thesis by (simp add: select_prog_def nc)
  qed
  from toplevel_run_analysis_invoked[OF ry sec dir base mk cd this]
    get_run_yaml_found[of oe remote_info fc_dir config "os w"] ry
  show ?thesis by simp
qed

theorem toplevel_run_analysis_command_witness:
  "invoked (snd (toplevel_run_analysis sample_os ''/data/110105_run'' sample_remote_info
                   (sample_config (PyStr ''messaging'') 2) ''cfg.yaml''
                   (sample_os_world [''/store/110105_run/run_info.yaml''])))
     = [[PyStr ''distributed_nextgen_pipeline.py'', PyStr ''cfg.yaml'',
         PyStr ''/data/110105_run'', PyStr ''/store/110105_run/run_info.yaml'']]
   \<and> invoked (snd (toplevel_run_analysis sample_os ''/data/110105_run'' sample_remote_info
                   (sample_config (PyInt 8) 2) ''cfg.yaml'' (sample_os_world [])))
     = [[PyStr ''analysis.py'', PyStr ''cfg.yaml'', PyStr ''/data/110105_run'']]"
proof -
  let ?sec = "map_of [(''worker_program'', PyStr ''worker.py''),
                      (''process_program'', PyStr ''analysis.py''),
                      (''store_dir'', PyStr ''/store'')]"
  have bn: "basename ''/data/110105_run'' = ''110105_run''"
    "basename ''/seq/110105_run'' = ''110105_run''"
    by (simp_all add: basename_def)
  have jn: "path_join2 (path_join2 ''/store'' ''110105_run'') ''run_info.yaml''
              = ''/store/110105_run/run_info.yaml''"
    "path_join2 ''/work'' ''110105_run'' = ''/work/110105_run''"
    by (simp_all add: path_join2_def)
  have sec: "sample_config cores 2 ''analysis'' = Some ?sec" for cores
    by (simp add: sample_config_def)
  have dir: "sample_remote_info ''directory'' = Some ''/seq/110105_run''"
    by (simp add: sample_remote_info_def)
  have base: "as_path (case ?sec ''base_dir'' of
                         None \<Rightarrow> PyStr (getcwd sample_os (os (sample_os_world paths)))
                       | Some v \<Rightarrow> v) = Inr ''/work''" for paths
    by (simp add: as_path_def sample_os_def)
  have dry: "default_run_yaml (sample_config cores 2) ''/data/110105_run''
               = Inr ''/store/110105_run/run_info.yaml''" for cores
    by (simp add: default_run_yaml_def getitem2_def sec as_path_def bn jn)
  have ry1: "get_run_yaml sample_os sample_remote_info ''/data/110105_run''
               (sample_config (PyStr ''messaging'') 2)
               (os (sample_os_world [''/store/110105_run/run_info.yaml'']))
             = Inr (Some ''/store/110105_run/run_info.yaml'')"
    by (simp add: get_run_yaml_def dry sample_remote_info_def sample_os_def sample_os_world_def)
  have ry2: "get_run_yaml sample_os sample_remote_info ''/data/110105_run''
               (sample_config (PyInt 8) 2) (os (sample_os_world []))
             = Inr None"
    by (simp add: get_run_yaml_def dry sample_remote_info_def sample_os_def sample_os_world_def)
  have mk: "prepare_dir sample_os (path_join2 ''/work'' (basename ''/seq/110105_run''))
              (sample_os_world paths)
            = (Inr (), \<lparr>os = (if ''/work/110105_run'' \<in> set paths then paths
                                else ''/work/110105_run'' # paths),
                        invoked = []\<rparr>)" for paths
    by (simp add: prepare_dir_def bn jn sample_os_def sample_os_world_def)
  have cd: "fst (chdir_enter sample_os d s) = Inr ()" for d s
    by (simp add: sample_os_def)
  have nc: "getitem2 (sample_config cores 2) ''algorithm'' ''num_cores'' = Inr cores" for cores
    by (rule sample_lookups(2))
  have pp1: "PyStr ''messaging'' \<noteq> PyStr ''messaging''
               \<longrightarrow> ?sec ''process_program'' = Some (PyStr ''analysis.py'')"
    by simp
  have pp2: "PyInt 8 \<noteq> PyStr ''messaging''
               \<longrightarrow> ?sec ''process_program'' = Some (PyStr ''analysis.py'')"
    by simp
  from toplevel_run_analysis_command[OF ry1 sec dir base mk cd nc pp1, of "''cfg.yaml''"]
  have "invoked (snd (toplevel_run_analysis sample_os ''/data/110105_run'' sample_remote_info
                   (sample_config (PyStr ''messaging'') 2) ''cfg.yaml''
                   (sample_os_world [''/store/110105_run/run_info.yaml''])))
     = [[PyStr ''distributed_nextgen_pipeline.py'', PyStr ''cfg.yaml'',
         PyStr ''/data/110105_run'', PyStr ''/store/110105_run/run_info.yaml'']]"
    by (simp add: sample_os_world_def)
  moreover
  from toplevel_run_analysis_command[OF ry2 sec dir base mk cd nc pp2, of "''cfg.yaml''"]
  have "invoked (snd (toplevel_run_analysis sample_os ''/data/110105_run'' sample_remote_info
                   (sample_config (PyInt 8) 2) ''cfg.yaml'' (sample_os_world [])))
     = [[PyStr ''analysis.py'', PyStr ''cfg.yaml'', PyStr ''/data/110105_run'']]"
    by (simp add: sample_os_world_def)
  ultimately show ?thesis by simp
qed

end
